theory Spec2Isabelle
  imports Main "HOL-Library.AList" "HOL-Library.Sublist"
begin

text \<open>
  A model of the distributed streamable-HTTP server transport of the Model Context Protocol
  and of the JSON-RPC engine behind it: the broker topics (\<open>topics.ts\<close>), the type guards
  (\<open>assertions.ts\<close>), the transport (\<open>transport.ts\<close>) and the class \<open>Protocol\<close>. Each
  function of the source is a function here, under its own name. What the source mutates
  is passed in and returned: the HTTP response under construction, the calls made on the
  broker and on the message handler, and the tables of the engine. What an \<open>async\<close> function
  awaits from outside (the events of a subscription, the result of a handler, the abort
  of a signal) is an argument. An exception is a value.
\<close>

section \<open>JavaScript values after \<^verbatim>\<open>JSON.parse\<close>\<close>

text \<open>
  A parsed JSON document. Objects keep their members as an association list whose first
  binding of a key is the member (\<open>map_of\<close>). Numbers are the integers: the JSON-RPC
  request id and the error codes are integers, and fractional numbers are outside this
  development. A property that is missing is \<open>undefined\<close>, modelled as \<open>None\<close>.
\<close>

datatype json =
    JNull
  | JBool bool
  | JNum int
  | JStr string
  | JArr "json list"
  | JObj "(string \<times> json) list"

text \<open>\<^verbatim>\<open>typeof v\<close> for a value that may be \<open>undefined\<close>.\<close>

fun typeof :: "json option \<Rightarrow> string" where
  "typeof None = ''undefined''"
| "typeof (Some JNull) = ''object''"
| "typeof (Some (JBool b)) = ''boolean''"
| "typeof (Some (JNum n)) = ''number''"
| "typeof (Some (JStr s)) = ''string''"
| "typeof (Some (JArr xs)) = ''object''"
| "typeof (Some (JObj kvs)) = ''object''"

text \<open>
  \<^verbatim>\<open>value[key]\<close> on a non-null value, for the member names this development reads
  (\<open>jsonrpc\<close>, \<open>id\<close>, \<open>method\<close>, \<open>params\<close>, \<open>result\<close>, \<open>error\<close>, \<open>code\<close>,
  \<open>message\<close>, \<open>_meta\<close>, \<open>progressToken\<close>, \<open>requestId\<close>): none of them is a built-in
  property of an array, a string, a number or a boolean, so only an object has them.
\<close>

fun js_get :: "json \<Rightarrow> string \<Rightarrow> json option" where
  "js_get (JObj kvs) key = map_of kvs key"
| "js_get _ key = None"

text \<open>\<^verbatim>\<open>value?.[key]\<close>: \<open>undefined\<close> when the value is \<open>null\<close> or \<open>undefined\<close>.\<close>

fun opt_get :: "json option \<Rightarrow> string \<Rightarrow> json option" where
  "opt_get None key = None"
| "opt_get (Some JNull) key = None"
| "opt_get (Some v) key = js_get v key"

text \<open>\<^verbatim>\<open>key in value\<close> for an object (the guards call it after \<open>isObject\<close> only).\<close>

definition has_key :: "string \<Rightarrow> json \<Rightarrow> bool" where
  "has_key key v \<longleftrightarrow> js_get v key \<noteq> None"

fun isArray :: "json option \<Rightarrow> bool" where
  "isArray (Some (JArr xs)) = True"
| "isArray _ = False"

text \<open>
  Decimal rendering of an integer, as \<^verbatim>\<open>String(n)\<close> and a template literal give it
  for a number in the safe-integer range.
\<close>

definition digit_char :: "nat \<Rightarrow> char" where
  "digit_char d = char_of (48 + d)"

function showNat :: "nat \<Rightarrow> string" where
  "showNat n = (if n < 10 then [digit_char n] else showNat (n div 10) @ [digit_char (n mod 10)])"
  by pat_completeness auto
termination
  by (relation "measure (\<lambda>n. n)") auto

declare showNat.simps [simp del]

definition showInt :: "int \<Rightarrow> string" where
  "showInt i = (if i < 0 then CHR ''-'' # showNat (nat (- i)) else showNat (nat i))"

text \<open>
  \<^verbatim>\<open>String(v)\<close> and \<^verbatim>\<open>`${v}`\<close>. An array renders its elements joined by commas, with
  \<open>null\<close> elements empty; an object renders as \<open>[object Object]\<close>.
\<close>

fun join_comma :: "string list \<Rightarrow> string" where
  "join_comma [] = []"
| "join_comma [s] = s"
| "join_comma (s # t # ss) = s @ '','' @ join_comma (t # ss)"

fun String_js :: "json \<Rightarrow> string"
  and String_elem :: "json \<Rightarrow> string" where
  "String_js JNull = ''null''"
| "String_js (JBool b) = (if b then ''true'' else ''false'')"
| "String_js (JNum n) = showInt n"
| "String_js (JStr s) = s"
| "String_js (JArr xs) = join_comma (map String_elem xs)"
| "String_js (JObj kvs) = ''[object Object]''"
| "String_elem JNull = []"
| "String_elem (JBool b) = (if b then ''true'' else ''false'')"
| "String_elem (JNum n) = showInt n"
| "String_elem (JStr s) = s"
| "String_elem (JArr xs) = join_comma (map String_elem xs)"
| "String_elem (JObj kvs) = ''[object Object]''"

text \<open>JavaScript truthiness of a parsed value.\<close>

fun truthy :: "json option \<Rightarrow> bool" where
  "truthy None = False"
| "truthy (Some JNull) = False"
| "truthy (Some (JBool b)) = b"
| "truthy (Some (JNum n)) = (n \<noteq> 0)"
| "truthy (Some (JStr s)) = (s \<noteq> [])"
| "truthy (Some (JArr xs)) = True"
| "truthy (Some (JObj kvs)) = True"

text \<open>\<^verbatim>\<open>haystack.str_includes(needle)\<close> on strings.\<close>

fun str_includes :: "string \<Rightarrow> string \<Rightarrow> bool" where
  "str_includes [] needle = (needle = [])"
| "str_includes (c # cs) needle = (prefix needle (c # cs) \<or> str_includes cs needle)"

section \<open>Type guards (assertions.ts)\<close>

text \<open>
  Modelled from the spec: the constants of \<open>schema.ts\<close>, which is not among the
  sources. The protocol is JSON-RPC 2.0; the error table gives \<open>-32700\<close> for a parse
  error, \<open>-32600\<close> for an invalid request, \<open>-32601\<close> for an unknown method and
  \<open>-32603\<close> for an internal error, as do the comments of \<open>errors.ts\<close>.
\<close>

definition JSONRPC_VERSION :: string where
  "JSONRPC_VERSION = ''2.0''"

definition PARSE_ERROR :: int where
  "PARSE_ERROR = - 32700"

definition INVALID_REQUEST :: int where
  "INVALID_REQUEST = - 32600"

definition METHOD_NOT_FOUND :: int where
  "METHOD_NOT_FOUND = - 32601"

definition INTERNAL_ERROR :: int where
  "INTERNAL_ERROR = - 32603"

fun isObject :: "json option \<Rightarrow> bool" where
  "isObject (Some (JObj kvs)) = True"
| "isObject _ = False"

definition hasJSONRPCVersion :: "json \<Rightarrow> bool" where
  "hasJSONRPCVersion v \<longleftrightarrow>
     isObject (Some v) \<and> has_key ''jsonrpc'' v \<and> js_get v ''jsonrpc'' = Some (JStr JSONRPC_VERSION)"

definition isJSONRPCRequest :: "json \<Rightarrow> bool" where
  "isJSONRPCRequest v =
     (if \<not> hasJSONRPCVersion v then False
      else if \<not> has_key ''id'' v then False
      else if \<not> has_key ''method'' v then False
      else if typeof (js_get v ''id'') \<noteq> ''string'' \<and> typeof (js_get v ''id'') \<noteq> ''number'' then False
      else if typeof (js_get v ''method'') \<noteq> ''string'' then False
      else if has_key ''params'' v \<and> js_get v ''params'' \<noteq> None
              \<and> \<not> isObject (js_get v ''params'') \<and> \<not> isArray (js_get v ''params'') then False
      else True)"

definition isJSONRPCNotification :: "json \<Rightarrow> bool" where
  "isJSONRPCNotification v =
     (if \<not> hasJSONRPCVersion v then False
      else if has_key ''id'' v then False
      else if \<not> has_key ''method'' v then False
      else if typeof (js_get v ''method'') \<noteq> ''string'' then False
      else if has_key ''params'' v \<and> js_get v ''params'' \<noteq> None
              \<and> \<not> isObject (js_get v ''params'') \<and> \<not> isArray (js_get v ''params'') then False
      else True)"

definition isJSONRPCResponse :: "json \<Rightarrow> bool" where
  "isJSONRPCResponse v =
     (if \<not> hasJSONRPCVersion v then False
      else if \<not> has_key ''id'' v then False
      else if \<not> has_key ''result'' v then False
      else if has_key ''error'' v then False
      else if typeof (js_get v ''id'') \<noteq> ''string'' \<and> typeof (js_get v ''id'') \<noteq> ''number'' then False
      else True)"

definition isJSONRPCError :: "json \<Rightarrow> bool" where
  "isJSONRPCError v =
     (if \<not> hasJSONRPCVersion v then False
      else if \<not> has_key ''id'' v then False
      else if \<not> has_key ''error'' v then False
      else if js_get v ''id'' \<noteq> Some JNull \<and> typeof (js_get v ''id'') \<noteq> ''string''
              \<and> typeof (js_get v ''id'') \<noteq> ''number'' then False
      else if \<not> isObject (js_get v ''error'') then False
      else if typeof (opt_get (js_get v ''error'') ''code'') \<noteq> ''number'' then False
      else if typeof (opt_get (js_get v ''error'') ''message'') \<noteq> ''string'' then False
      else True)"

definition isCancelledNotification :: "json \<Rightarrow> bool" where
  "isCancelledNotification v =
     (if \<not> isJSONRPCNotification v then False
      else if js_get v ''method'' \<noteq> Some (JStr ''notifications/cancelled'') then False
      else if \<not> isObject (js_get v ''params'') then False
      else if opt_get (js_get v ''params'') ''requestId'' = None then False
      else if typeof (opt_get (js_get v ''params'') ''requestId'') \<noteq> ''string''
              \<and> typeof (opt_get (js_get v ''params'') ''requestId'') \<noteq> ''number'' then False
      else True)"

section \<open>Broker topics (topics.ts)\<close>


text \<open>
  Topic parameters. \<open>SessionScopeParams\<close> carries the session id; \<open>RequestScopeParams\<close>
  adds the request id. Identifiers are arbitrary strings: the transport takes the
  request id from the JSON-RPC \<open>id\<close> field of the client and the session id from the
  session store or the \<open>Mcp-Session-Id\<close> header.
\<close>

record SessionScopeParams =
  sessionId :: string

record RequestScopeParams = SessionScopeParams +
  requestId :: string

text \<open>
  \<^verbatim>\<open>subject: (p) => `mcp.${p.sessionId}.${p.requestId}.${suffix}`\<close> and
  \<^verbatim>\<open>subject: (p) => `mcp.${p.sessionId}.bg.${suffix}`\<close>.
\<close>

definition createRequestScopedTopic :: "string \<Rightarrow> RequestScopeParams \<Rightarrow> string" where
  "createRequestScopedTopic sfx p =
     ''mcp.'' @ sessionId p @ ''.'' @ requestId p @ ''.'' @ sfx"

definition createSessionScopedTopic :: "string \<Rightarrow> SessionScopeParams \<Rightarrow> string" where
  "createSessionScopedTopic sfx p = ''mcp.'' @ sessionId p @ ''.bg.'' @ sfx"

definition RequestInbound :: "RequestScopeParams \<Rightarrow> string" where
  "RequestInbound = createRequestScopedTopic ''inbound''"

definition RequestOutbound :: "RequestScopeParams \<Rightarrow> string" where
  "RequestOutbound = createRequestScopedTopic ''outbound''"

definition BackgroundOutbound :: "SessionScopeParams \<Rightarrow> string" where
  "BackgroundOutbound = createSessionScopedTopic ''outbound''"

definition BackgroundInbound :: "SessionScopeParams \<Rightarrow> string" where
  "BackgroundInbound = createSessionScopedTopic ''inbound''"

text \<open>An identifier is dot-free when it does not contain the segment separator.\<close>

definition dot_free :: "string \<Rightarrow> bool" where
  "dot_free s \<longleftrightarrow> CHR ''.'' \<notin> set s"

section \<open>The HTTP transport (transport.ts)\<close>

subsection \<open>Constants, options and construction\<close>

definition DEFAULT_ENDPOINT :: string where
  "DEFAULT_ENDPOINT = ''/''"

definition DEFAULT_RESPONSE_TIMEOUT_MS :: nat where
  "DEFAULT_RESPONSE_TIMEOUT_MS = 30000"

definition DEFAULT_ENABLE_BACKGROUND_CHANNEL :: bool where
  "DEFAULT_ENABLE_BACKGROUND_CHANNEL = True"

definition DEFAULT_ENABLE_SESSION_TERMINATION :: bool where
  "DEFAULT_ENABLE_SESSION_TERMINATION = True"

definition STREAMING_METHODS :: "string list" where
  "STREAMING_METHODS = [''tools/call'', ''sampling/createMessage'', ''prompts/get'']"

datatype ResponseMode = ModeJson | ModeSse

text \<open>
  A thrown value: a plain \<open>Error\<close> with its message, a \<open>ProtocolError\<close> with its code and
  message, or any other value, kept as the string \<^verbatim>\<open>String(error)\<close> gives.
\<close>

datatype exn = Error string | ProtocolError int string | Foreign string

text \<open>The response under construction (\<open>ServerResponse\<close>) and what \<open>res.end\<close> was given.\<close>

datatype body = NoBody | Text string | Json json

record http_response =
  statusCode :: nat
  headers :: "(string \<times> string) list"
  body :: body
  writableEnded :: bool

definition new_response :: http_response where
  "new_response = \<lparr>statusCode = 200, headers = [], body = NoBody, writableEnded = False\<rparr>"

definition setStatus :: "nat \<Rightarrow> http_response \<Rightarrow> http_response" where
  "setStatus c res = res\<lparr>statusCode := c\<rparr>"

definition setHeader :: "string \<Rightarrow> string \<Rightarrow> http_response \<Rightarrow> http_response" where
  "setHeader name v res = res\<lparr>headers := AList.update name v (headers res)\<rparr>"

definition end_response :: "body \<Rightarrow> http_response \<Rightarrow> http_response" where
  "end_response b res = res\<lparr>body := b, writableEnded := True\<rparr>"

definition writeHead :: "nat \<Rightarrow> (string \<times> string) list \<Rightarrow> http_response \<Rightarrow> http_response" where
  "writeHead c hs res = fold (\<lambda>(name, v). setHeader name v) hs (setStatus c res)"

text \<open>
  The incoming request: the method, the path of the parsed URL, its \<open>sessionId\<close> query
  parameter, the headers the transport reads, and what reading and parsing the body gives.
\<close>

datatype body_read = StreamError exn | Unparseable | Parsed json

record http_request =
  httpMethod :: string
  pathname :: string
  querySessionId :: "string option"
  accept :: "string option"
  mcpSessionId :: "string option"
  requestBody :: body_read

record TransportSession =
  sid :: string

text \<open>The session store, as far as the transport calls it during one HTTP request.\<close>

record SessionManager =
  sessions_get :: "string \<Rightarrow> TransportSession option"
  sessions_create :: TransportSession

text \<open>
  The broker: whether \<open>publish\<close> of a message on a subject rejects. A successful publish
  is recorded in the effects below.
\<close>

record EventBroker =
  publishRejects :: "string \<Rightarrow> json \<Rightarrow> exn option"

type_synonym ResponseModeStrategy = "json list \<Rightarrow> TransportSession option \<Rightarrow> ResponseMode"

text \<open>
  The middleware chain as a whole: from the request and the response under construction to
  the exception it ends with, if any, and the response it leaves.
\<close>

type_synonym MiddlewareChain = "http_request \<Rightarrow> http_response \<Rightarrow> exn option \<times> http_response"

record HttpServerOptions =
  port :: nat
  host :: "string option"
  endpoint :: "string option"
  middlewares :: "MiddlewareChain option"

record StreamableHttpOptions =
  responseTimeoutMs :: "nat option"
  responseModeStrategy :: "ResponseModeStrategy option"
  enableBackgroundChannel :: "bool option"
  enableSessionTermination :: "bool option"

record TransportOptions =
  httpServer :: HttpServerOptions
  streamableHttp :: "StreamableHttpOptions option"
  sessions :: "SessionManager option"
  eventBroker :: "EventBroker option"

text \<open>
  The message handler the protocol installs: the exception it rejects with, if any.
\<close>

type_synonym TransportMessageHandler = "json \<Rightarrow> exn option"

record Transport =
  endpoint :: string
  responseTimeoutMs :: nat
  responseModeStrategy :: ResponseModeStrategy
  enableBackgroundChannel :: bool
  enableSessionTermination :: bool
  options :: TransportOptions
  broker :: EventBroker
  messageHandler :: "TransportMessageHandler option"
  listening :: bool

text \<open>\<^verbatim>\<open>opt?.field ?? dflt\<close>.\<close>

definition nullish :: "'a option \<Rightarrow> 'a \<Rightarrow> 'a" where
  "nullish v dflt = (case v of None \<Rightarrow> dflt | Some x \<Rightarrow> x)"

definition via :: "'a option \<Rightarrow> ('a \<Rightarrow> 'b option) \<Rightarrow> 'b option" where
  "via v f = (case v of None \<Rightarrow> None | Some x \<Rightarrow> f x)"

fun defaultResponseModeStrategy :: "json list \<Rightarrow> TransportSession option \<Rightarrow> ResponseMode" where
  "defaultResponseModeStrategy [] session = ModeJson"
| "defaultResponseModeStrategy (msg # messages) session =
     (if isJSONRPCRequest msg then
        (if (case js_get msg ''method'' of Some (JStr m) \<Rightarrow> m \<in> set STREAMING_METHODS | _ \<Rightarrow> False)
         then ModeSse
         else if opt_get (opt_get (js_get msg ''params'') ''_meta'') ''progressToken'' \<noteq> None
         then ModeSse
         else defaultResponseModeStrategy messages session)
      else defaultResponseModeStrategy messages session)"

text \<open>
  The constructor. The transport starts without a message handler; the protocol sets one
  when it connects (\<open>withMessageHandler\<close>), and \<open>connect\<close> makes the server listen.
\<close>

definition constructor :: "TransportOptions \<Rightarrow> exn + Transport" where
  "constructor opts =
     (case eventBroker opts of
        None \<Rightarrow> Inl (Error ''DistributedStreamableHttpServerTransport requires an 'eventBroker' for message routing.'')
      | Some b \<Rightarrow> Inr
          \<lparr>Transport.endpoint = nullish (HttpServerOptions.endpoint (httpServer opts)) DEFAULT_ENDPOINT,
           Transport.responseTimeoutMs =
             nullish (via (streamableHttp opts) StreamableHttpOptions.responseTimeoutMs) DEFAULT_RESPONSE_TIMEOUT_MS,
           Transport.responseModeStrategy =
             nullish (via (streamableHttp opts) StreamableHttpOptions.responseModeStrategy) defaultResponseModeStrategy,
           Transport.enableBackgroundChannel =
             nullish (via (streamableHttp opts) StreamableHttpOptions.enableBackgroundChannel) DEFAULT_ENABLE_BACKGROUND_CHANNEL,
           Transport.enableSessionTermination =
             nullish (via (streamableHttp opts) StreamableHttpOptions.enableSessionTermination) DEFAULT_ENABLE_SESSION_TERMINATION,
           options = opts,
           broker = b,
           messageHandler = None,
           listening = False\<rparr>)"

definition withMessageHandler :: "TransportMessageHandler \<Rightarrow> Transport \<Rightarrow> Transport" where
  "withMessageHandler h t = t\<lparr>messageHandler := Some h\<rparr>"

definition connect :: "Transport \<Rightarrow> Transport" where
  "connect t = t\<lparr>listening := True\<rparr>"

subsection \<open>Effects on the broker, the protocol and the session store\<close>

record effects =
  delivered :: "json list"
  published :: "(string \<times> json) list"
  subscribed :: "string list"
  deletedSessions :: "string list"

definition no_effects :: effects where
  "no_effects = \<lparr>delivered = [], published = [], subscribed = [], deletedSessions = []\<rparr>"

text \<open>\<^verbatim>\<open>await eventBroker.publish(topic, params, message)\<close>, on the subject of the topic.\<close>

definition publish :: "EventBroker \<Rightarrow> string \<Rightarrow> json \<Rightarrow> effects \<Rightarrow> exn option \<times> effects" where
  "publish b subject message fx =
     (case publishRejects b subject message of
        Some e \<Rightarrow> (Some e, fx)
      | None \<Rightarrow> (None, fx\<lparr>published := published fx @ [(subject, message)]\<rparr>))"

subsection \<open>send\<close>

record TransportSendOptions =
  sessionId :: "string option"
  requestId :: "string option"
  timeout :: "nat option"

text \<open>
  \<^verbatim>\<open>if (!sessionId)\<close> and \<^verbatim>\<open>options?.requestId ? String(options.requestId) : undefined\<close>
  test truthiness: a string that is \<open>undefined\<close> or empty fails the test. The request id
  that passes is a non-empty string, so the later \<^verbatim>\<open>if (requestId)\<close> holds exactly when it
  is there.
\<close>

definition send :: "Transport \<Rightarrow> json \<Rightarrow> TransportSendOptions option \<Rightarrow> effects \<Rightarrow> exn option \<times> effects" where
  "send t message opts fx =
     (case via opts TransportSendOptions.sessionId of
        None \<Rightarrow> (Some (Error ''Cannot send message: Missing sessionId in options''), fx)
      | Some session \<Rightarrow>
          if session = [] then (Some (Error ''Cannot send message: Missing sessionId in options''), fx)
          else
            (let reqId =
                   (case via opts TransportSendOptions.requestId of
                      None \<Rightarrow> None
                    | Some r \<Rightarrow> if r \<noteq> [] then Some r else None)
             in case reqId of
                  Some r \<Rightarrow>
                    publish (broker t)
                      (RequestOutbound \<lparr>SessionScopeParams.sessionId = session, RequestScopeParams.requestId = r\<rparr>)
                      message fx
                | None \<Rightarrow>
                    (if isJSONRPCRequest message then
                       publish (broker t) (BackgroundInbound \<lparr>SessionScopeParams.sessionId = session\<rparr>) message fx
                     else
                       publish (broker t) (BackgroundOutbound \<lparr>SessionScopeParams.sessionId = session\<rparr>) message fx)))"

subsection \<open>Sessions and the request body\<close>

definition truthy_str :: "string option \<Rightarrow> bool" where
  "truthy_str s = (case s of None \<Rightarrow> False | Some x \<Rightarrow> x \<noteq> [])"

datatype SessionResult =
    Success string "TransportSession option" bool
  | Failure

text \<open>
  \<open>uuid\<close> stands for the value \<^verbatim>\<open>randomUUID()\<close> returns when the transport has no session
  store. The header wins over the query parameter (\<^verbatim>\<open>headerSessionId ?? querySessionId\<close>).
  What the store records when it creates a session stays inside the store.
\<close>

definition getOrCreateSession ::
  "Transport \<Rightarrow> string \<Rightarrow> http_request \<Rightarrow> http_response \<Rightarrow> SessionResult \<times> http_response" where
  "getOrCreateSession t uuid req res =
     (let sessId = (case mcpSessionId req of Some h \<Rightarrow> Some h | None \<Rightarrow> querySessionId req) in
      case sessions (options t) of
        Some store \<Rightarrow>
          (if truthy_str sessId then
             (case sessions_get store (the sessId) of
                None \<Rightarrow> (Failure, end_response (Text ''Session Not Found'') (setStatus 404 res))
              | Some session \<Rightarrow> (Success (the sessId) (Some session) False, res))
           else (Success (sid (sessions_create store)) (Some (sessions_create store)) True, res))
      | None \<Rightarrow> (Success uuid None True, res))"

definition getExistingSession ::
  "Transport \<Rightarrow> http_request \<Rightarrow> http_response \<Rightarrow> SessionResult \<times> http_response" where
  "getExistingSession t req res =
     (if \<not> truthy_str (mcpSessionId req) then
        (Failure, end_response (Text ''Bad Request: Missing Mcp-Session-Id header'') (setStatus 400 res))
      else
        (case sessions (options t) of
           Some store \<Rightarrow>
             (case sessions_get store (the (mcpSessionId req)) of
                None \<Rightarrow> (Failure, end_response (Text ''Session Not Found'') (setStatus 404 res))
              | Some session \<Rightarrow> (Success (the (mcpSessionId req)) (Some session) False, res))
         | None \<Rightarrow> (Success (the (mcpSessionId req)) None False, res)))"

definition error_envelope :: "json \<Rightarrow> int \<Rightarrow> string \<Rightarrow> json" where
  "error_envelope i code msg =
     JObj [(''jsonrpc'', JStr ''2.0''), (''id'', i),
           (''error'', JObj [(''code'', JNum code), (''message'', JStr msg)])]"

definition handleError :: "exn \<Rightarrow> http_response \<Rightarrow> http_response" where
  "handleError err res =
     (if \<not> writableEnded res then
        end_response (Json (error_envelope JNull INTERNAL_ERROR ''Internal Server Error''))
          (setHeader ''Content-Type'' ''application/json'' (setStatus 500 res))
      else res)"

text \<open>
  \<open>parseRequestBody\<close> resolves with the messages and the batch flag, or with \<open>null\<close> after
  it has answered 400 (the body is not JSON) or 500 (the request stream failed).
\<close>

definition parseRequestBody :: "http_request \<Rightarrow> http_response \<Rightarrow> (json list \<times> bool) option \<times> http_response" where
  "parseRequestBody req res =
     (case requestBody req of
        Parsed parsed \<Rightarrow>
          (let isBatch = isArray (Some parsed);
               messages = (case parsed of JArr xs \<Rightarrow> xs | _ \<Rightarrow> [parsed])
           in (Some (messages, isBatch), res))
      | Unparseable \<Rightarrow>
          (None, end_response (Json (error_envelope JNull PARSE_ERROR ''Parse error''))
                   (setHeader ''Content-Type'' ''application/json'' (setStatus 400 res)))
      | StreamError err \<Rightarrow> (None, handleError err res))"

subsection \<open>Delivery to the protocol and the three POST answers\<close>

fun deliver_each :: "TransportMessageHandler \<Rightarrow> json list \<Rightarrow> effects \<Rightarrow> exn option \<times> effects" where
  "deliver_each h [] fx = (None, fx)"
| "deliver_each h (message # messages) fx =
     (case h message of
        Some e \<Rightarrow> (Some e, fx\<lparr>delivered := delivered fx @ [message]\<rparr>)
      | None \<Rightarrow> deliver_each h messages (fx\<lparr>delivered := delivered fx @ [message]\<rparr>))"

definition deliverToProtocol :: "Transport \<Rightarrow> json list \<Rightarrow> effects \<Rightarrow> exn option \<times> effects" where
  "deliverToProtocol t messages fx =
     (case messageHandler t of None \<Rightarrow> (None, fx) | Some h \<Rightarrow> deliver_each h messages fx)"

fun publish_each :: "EventBroker \<Rightarrow> string \<Rightarrow> json list \<Rightarrow> effects \<Rightarrow> exn option \<times> effects" where
  "publish_each b subject [] fx = (None, fx)"
| "publish_each b subject (message # messages) fx =
     (case publish b subject message fx of
        (Some e, fx') \<Rightarrow> (Some e, fx')
      | (None, fx') \<Rightarrow> publish_each b subject messages fx')"

text \<open>
  A handler ends in one of three ways: it returns, it rejects with an exception, or it has
  written the head of an event stream and keeps streaming (the streams themselves are
  outside this development).
\<close>

datatype outcome = Returned | Rejected exn | Streaming

definition handleNotificationsOnly ::
  "Transport \<Rightarrow> string \<Rightarrow> json list \<Rightarrow> http_response \<Rightarrow> effects \<Rightarrow> outcome \<times> http_response \<times> effects" where
  "handleNotificationsOnly t sessId messages res fx =
     (case publish_each (broker t) (BackgroundOutbound \<lparr>SessionScopeParams.sessionId = sessId\<rparr>) messages fx of
        (Some e, fx') \<Rightarrow> (Rejected e, res, fx')
      | (None, fx') \<Rightarrow> (Returned, end_response NoBody (setStatus 202 res), fx'))"

text \<open>
  What the correlation subscriptions of one POST yield until the race between
  \<^verbatim>\<open>Promise.all(responsePromises)\<close> and the deadline is decided, in the order the loops
  see it: subscription \<open>i\<close> (the \<open>i\<close>-th request of the batch) yields a message with this
  data, ends without one, or fails.
\<close>

datatype sub_event = Message nat json | Closed nat | Failed nat exn

record json_wait =
  responses :: "json list"
  pendingRequestIds :: "(string \<times> json) list"
  finished :: "nat list"
  failure :: "exn option"

text \<open>
  One step of a subscription loop. \<open>subs\<close> holds the \<open>requestId\<close> string of each
  subscription. A loop that has returned takes no further message. A response or an
  error is pushed, its key leaves the pending map and the loop returns; other data
  (a progress notification) is acknowledged and skipped.
\<close>

fun sub_step :: "string list \<Rightarrow> sub_event \<Rightarrow> json_wait \<Rightarrow> json_wait" where
  "sub_step subs (Message i data) w =
     (if i < length subs \<and> i \<notin> set (finished w) \<and> failure w = None then
        (if isJSONRPCResponse data \<or> isJSONRPCError data then
           w\<lparr>responses := responses w @ [data],
             pendingRequestIds := AList.delete (subs ! i) (pendingRequestIds w),
             finished := i # finished w\<rparr>
         else w)
      else w)"
| "sub_step subs (Closed i) w =
     (if i < length subs \<and> i \<notin> set (finished w) \<and> failure w = None
      then w\<lparr>finished := i # finished w\<rparr> else w)"
| "sub_step subs (Failed i e) w =
     (if i < length subs \<and> i \<notin> set (finished w) \<and> failure w = None
      then w\<lparr>failure := Some e\<rparr> else w)"

definition all_finished :: "string list \<Rightarrow> json_wait \<Rightarrow> bool" where
  "all_finished subs w \<longleftrightarrow> (\<forall>i \<in> set [0 ..< length subs]. i \<in> set (finished w))"

text \<open>\<^verbatim>\<open>for (const request of requests) pendingRequestIds.set(String(request.id), request.id)\<close>.\<close>

definition request_id :: "json \<Rightarrow> json" where
  "request_id request = (case js_get request ''id'' of Some i \<Rightarrow> i | None \<Rightarrow> JNull)"

definition initial_pending :: "json list \<Rightarrow> (string \<times> json) list" where
  "initial_pending requests =
     fold (\<lambda>request m. AList.update (String_js (request_id request)) (request_id request) m) requests []"

text \<open>
  The state of the wait when the race is decided: the loops of the subscriptions, one per
  request, have taken the events in order.
\<close>

definition await_responses :: "json list \<Rightarrow> sub_event list \<Rightarrow> json_wait" where
  "await_responses requests events =
     fold (sub_step (map (\<lambda>request. String_js (request_id request)) requests)) events
       \<lparr>responses = [], pendingRequestIds = initial_pending requests, finished = [], failure = None\<rparr>"

definition timeout_error :: "json \<Rightarrow> json" where
  "timeout_error originalId = error_envelope originalId INTERNAL_ERROR ''Request timeout''"

definition handleJsonResponse ::
  "Transport \<Rightarrow> string \<Rightarrow> json list \<Rightarrow> bool \<Rightarrow> sub_event list \<Rightarrow> http_response \<Rightarrow> effects
     \<Rightarrow> outcome \<times> http_response \<times> effects" where
  "handleJsonResponse t sessId messages isBatch events res fx =
     (let requests = filter isJSONRPCRequest messages;
          subs = map (\<lambda>request. String_js (request_id request)) requests;
          fx1 = fx\<lparr>subscribed := subscribed fx @
                  map (\<lambda>reqId. RequestOutbound
                         \<lparr>SessionScopeParams.sessionId = sessId, RequestScopeParams.requestId = reqId\<rparr>) subs\<rparr>
      in case deliverToProtocol t messages fx1 of
           (Some e, fx2) \<Rightarrow> (Rejected e, res, fx2)
         | (None, fx2) \<Rightarrow>
             (let w = await_responses requests events
              in case failure w of
                   Some e \<Rightarrow> (Returned, handleError e res, fx2)
                 | None \<Rightarrow>
                     (let responses' =
                            (if all_finished subs w then responses w
                             else responses w @ map (\<lambda>(key, originalId). timeout_error originalId)
                                                   (pendingRequestIds w));
                          res1 = setHeader ''Content-Type'' ''application/json'' (setStatus 200 res)
                      in if isBatch then (Returned, end_response (Json (JArr responses')) res1, fx2)
                         else (Returned,
                               end_response
                                 (Json (case responses' of
                                          r # rs \<Rightarrow> r
                                        | [] \<Rightarrow> error_envelope JNull INTERNAL_ERROR ''No response'')) res1,
                               fx2))))"


text \<open>The head \<open>handleSseResponse\<close> writes before it streams.\<close>

definition handleSseResponse ::
  "Transport \<Rightarrow> string \<Rightarrow> json list \<Rightarrow> http_response \<Rightarrow> effects \<Rightarrow> outcome \<times> http_response \<times> effects" where
  "handleSseResponse t sessId messages res fx =
     (Streaming,
      writeHead 200 [(''Content-Type'', ''text/event-stream''), (''Cache-Control'', ''no-cache''),
                     (''Connection'', ''keep-alive'')] res,
      fx\<lparr>subscribed := subscribed fx @
            map (\<lambda>request. RequestOutbound
                   \<lparr>SessionScopeParams.sessionId = sessId,
                    RequestScopeParams.requestId = String_js (request_id request)\<rparr>)
                (filter isJSONRPCRequest messages)\<rparr>)"

text \<open>The messages \<open>deliverToProtocol\<close> hands over when no handler call throws.\<close>

definition delivered_to :: "Transport \<Rightarrow> json list \<Rightarrow> json list" where
  "delivered_to t ms = (case messageHandler t of None \<Rightarrow> [] | Some h \<Rightarrow> ms)"

subsection \<open>POST, GET, DELETE and the router\<close>

definition handlePost ::
  "Transport \<Rightarrow> string \<Rightarrow> sub_event list \<Rightarrow> http_request \<Rightarrow> http_response \<Rightarrow> effects
     \<Rightarrow> outcome \<times> http_response \<times> effects" where
  "handlePost t uuid events req res fx =
     (let acceptHeader = nullish (accept req) [];
          acceptsJson = str_includes acceptHeader ''application/json'' \<or> str_includes acceptHeader ''*/*'';
          acceptsSse = str_includes acceptHeader ''text/event-stream'' \<or> str_includes acceptHeader ''*/*''
      in if \<not> acceptsJson \<and> \<not> acceptsSse then
           (Returned,
            end_response (Text ''Not Acceptable: Must accept application/json or text/event-stream'')
              (setStatus 406 res), fx)
         else
           (case getOrCreateSession t uuid req res of
              (Failure, res1) \<Rightarrow> (Returned, res1, fx)
            | (Success sessId session isNewSession, res1) \<Rightarrow>
                (case parseRequestBody req res1 of
                   (None, res2) \<Rightarrow> (Returned, res2, fx)
                 | (Some (messages, isBatch), res2) \<Rightarrow>
                     (let requests = filter isJSONRPCRequest messages;
                          hasRequests = (length requests > 0)
                      in if \<not> hasRequests then
                           (case deliverToProtocol t messages fx of
                              (Some e, fx1) \<Rightarrow> (Rejected e, res2, fx1)
                            | (None, fx1) \<Rightarrow> handleNotificationsOnly t sessId messages res2 fx1)
                         else
                           (let responseMode = Transport.responseModeStrategy t messages session;
                                res3 = (if isNewSession \<and> sessId \<noteq> []
                                        then setHeader ''Mcp-Session-Id'' sessId res2 else res2)
                            in if responseMode = ModeSse \<and> acceptsSse then
                                 handleSseResponse t sessId messages res3 fx
                               else if acceptsJson then
                                 handleJsonResponse t sessId messages isBatch events res3 fx
                               else
                                 (Returned, end_response (Text ''Not Acceptable'') (setStatus 406 res3), fx))))))"

definition handleGet ::
  "Transport \<Rightarrow> http_request \<Rightarrow> http_response \<Rightarrow> effects \<Rightarrow> outcome \<times> http_response \<times> effects" where
  "handleGet t req res fx =
     (if \<not> Transport.enableBackgroundChannel t then
        (Returned,
         end_response (Text ''Method Not Allowed'')
           (setHeader ''Allow'' ''POST, DELETE, OPTIONS'' (setStatus 405 res)), fx)
      else
        (let acceptHeader = nullish (accept req) [] in
         if \<not> str_includes acceptHeader ''text/event-stream'' \<and> \<not> str_includes acceptHeader ''*/*'' then
           (Returned,
            end_response (Text ''Not Acceptable: Must accept text/event-stream'') (setStatus 406 res), fx)
         else
           (case getExistingSession t req res of
              (Failure, res1) \<Rightarrow> (Returned, res1, fx)
            | (Success sessId session isNewSession, res1) \<Rightarrow>
                (Streaming,
                 writeHead 200 [(''Content-Type'', ''text/event-stream''), (''Cache-Control'', ''no-cache''),
                                (''Connection'', ''keep-alive''), (''Mcp-Session-Id'', sessId)] res1,
                 fx\<lparr>subscribed := subscribed fx @
                       [BackgroundOutbound \<lparr>SessionScopeParams.sessionId = sessId\<rparr>,
                        BackgroundInbound \<lparr>SessionScopeParams.sessionId = sessId\<rparr>]\<rparr>))))"

definition handleDelete ::
  "Transport \<Rightarrow> http_request \<Rightarrow> http_response \<Rightarrow> effects \<Rightarrow> outcome \<times> http_response \<times> effects" where
  "handleDelete t req res fx =
     (if \<not> Transport.enableSessionTermination t then
        (Returned,
         end_response (Text ''Method Not Allowed'')
           (setHeader ''Allow'' ''GET, POST, OPTIONS'' (setStatus 405 res)), fx)
      else if \<not> truthy_str (mcpSessionId req) then
        (Returned,
         end_response (Text ''Bad Request: Missing Mcp-Session-Id header'') (setStatus 400 res), fx)
      else
        (Returned, end_response NoBody (setStatus 204 res),
         (case sessions (options t) of
            Some store \<Rightarrow> fx\<lparr>deletedSessions := deletedSessions fx @ [the (mcpSessionId req)]\<rparr>
          | None \<Rightarrow> fx)))"

definition runMiddlewares :: "Transport \<Rightarrow> http_request \<Rightarrow> http_response \<Rightarrow> exn option \<times> http_response" where
  "runMiddlewares t req res =
     (case middlewares (httpServer (options t)) of
        None \<Rightarrow> (None, res)
      | Some chain \<Rightarrow> chain req res)"

text \<open>
  The router, with the \<^verbatim>\<open>.catch((err) => this.handleError(err, res))\<close> of the server
  callback around it: a rejection becomes the answer \<open>handleError\<close> writes.
\<close>

definition route ::
  "Transport \<Rightarrow> string \<Rightarrow> sub_event list \<Rightarrow> http_request \<Rightarrow> http_response \<Rightarrow> effects
     \<Rightarrow> outcome \<times> http_response \<times> effects" where
  "route t uuid events req res fx =
     (case runMiddlewares t req res of
        (Some e, res1) \<Rightarrow> (Rejected e, res1, fx)
      | (None, res1) \<Rightarrow>
          if writableEnded res1 then (Returned, res1, fx)
          else if pathname req = ''/health'' then
            (Returned,
             end_response (Json (JObj [(''status'', JStr ''healthy'')]))
               (setHeader ''Content-Type'' ''application/json'' (setStatus 200 res1)), fx)
          else if pathname req = ''/readiness'' then
            (Returned,
             end_response
               (Json (JObj [(''status'', JStr (if listening t then ''ready'' else ''not ready'')),
                            (''listening'', JBool (listening t))]))
               (setHeader ''Content-Type'' ''application/json''
                  (setStatus (if listening t then 200 else 503) res1)), fx)
          else if pathname req \<noteq> Transport.endpoint t then
            (Returned, end_response (Text ''Not Found'') (setStatus 404 res1), fx)
          else if httpMethod req = ''POST'' then handlePost t uuid events req res1 fx
          else if httpMethod req = ''GET'' then handleGet t req res1 fx
          else if httpMethod req = ''DELETE'' then handleDelete t req res1 fx
          else if httpMethod req = ''OPTIONS'' then (Returned, end_response NoBody (setStatus 204 res1), fx)
          else
            (Returned,
             end_response (Text ''Method Not Allowed'')
               (setHeader ''Allow'' ''GET, POST, DELETE, OPTIONS'' (setStatus 405 res1)), fx))"

definition handleRequest ::
  "Transport \<Rightarrow> string \<Rightarrow> sub_event list \<Rightarrow> http_request \<Rightarrow> effects
     \<Rightarrow> outcome \<times> http_response \<times> effects" where
  "handleRequest t uuid events req fx =
     (case route t uuid events req new_response fx of
        (Rejected e, res, fx') \<Rightarrow> (Returned, handleError e res, fx')
      | r \<Rightarrow> r)"

section \<open>The protocol engine (class \<open>Protocol\<close>)\<close>

subsection \<open>Errors and keys\<close>

definition InternalError :: "string \<Rightarrow> exn" where
  "InternalError msg = ProtocolError INTERNAL_ERROR msg"

definition MethodNotFoundError :: "string \<Rightarrow> exn" where
  "MethodNotFoundError m = ProtocolError METHOD_NOT_FOUND (''Method not found: '' @ m)"

text \<open>\<^verbatim>\<open>error.message\<close> of a thrown value; a value that is no \<open>Error\<close> is its own text.\<close>

fun exn_message :: "exn \<Rightarrow> string" where
  "exn_message (Error msg) = msg"
| "exn_message (ProtocolError code msg) = msg"
| "exn_message (Foreign s) = s"

text \<open>
  \<^verbatim>\<open>error instanceof ProtocolError ? error : new InternalError(String(error))\<close>, where
  \<^verbatim>\<open>String\<close> of a plain \<open>Error\<close> is its name, a colon and its message.
\<close>

fun as_protocol_error :: "exn \<Rightarrow> exn" where
  "as_protocol_error (ProtocolError code msg) = ProtocolError code msg"
| "as_protocol_error (Error msg) = InternalError (''Error: '' @ msg)"
| "as_protocol_error (Foreign s) = InternalError s"

fun error_object :: "exn \<Rightarrow> json" where
  "error_object (ProtocolError code msg) = JObj [(''code'', JNum code), (''message'', JStr msg)]"
| "error_object e = JObj [(''message'', JStr (exn_message e))]"

text \<open>
  \<^verbatim>\<open>`${connectionId}:${sessionId}:${requestId}`\<close>; a session id that is \<open>undefined\<close>
  renders as the word.
\<close>

definition mapRequestKey :: "string \<Rightarrow> string option \<Rightarrow> json \<Rightarrow> string" where
  "mapRequestKey connectionId sessId reqId =
     connectionId @ '':'' @ (case sessId of None \<Rightarrow> ''undefined'' | Some x \<Rightarrow> x) @ '':'' @ String_js reqId"

definition mapProgressKey :: "string \<Rightarrow> string option \<Rightarrow> json \<Rightarrow> string" where
  "mapProgressKey connectionId sessId progressToken =
     connectionId @ '':'' @ (case sessId of None \<Rightarrow> ''undefined'' | Some x \<Rightarrow> x) @ '':'' @ String_js progressToken"

subsection \<open>State\<close>

text \<open>
  A connection: its id and whether \<open>send\<close> of its transport rejects. Abort controllers and
  promises are numbered in the order the engine creates them.
\<close>

record Connection =
  conn_id :: string
  sendRejects :: "json \<Rightarrow> TransportSendOptions \<Rightarrow> exn option"

datatype settlement = Fulfilled json | RejectedWith exn

record PendingRequest =
  pr_requestId :: json
  pr_connection :: string
  pr_promise :: nat
  pr_abortController :: nat
  pr_onProgress :: bool
  pr_timeout :: "nat option"

text \<open>
  The tables are JavaScript \<open>Map\<close>s: association lists in insertion order, read with
  \<open>map_of\<close>, written with \<open>AList.update\<close> and \<open>AList.delete\<close>. \<open>abortListeners\<close> holds the
  listeners \<open>send\<close> has added to external signals: the signal, the key of the request and
  its own abort controller. \<open>sent\<close> records the calls of \<open>transport.send\<close>.
\<close>

record 'h Protocol =
  handlers :: "(string \<times> 'h) list"
  incomingRequests :: "(string \<times> nat) list"
  pendingRequests :: "(string \<times> PendingRequest) list"
  progressTokenIndex :: "(string \<times> string) list"
  abortListeners :: "(nat \<times> string \<times> nat) list"
  aborted :: "nat set"
  controllers :: nat
  settled :: "nat \<rightharpoonup> settlement"
  promises :: nat
  sent :: "(string \<times> json \<times> TransportSendOptions) list"

definition new_Protocol :: "'h Protocol" where
  "new_Protocol =
     \<lparr>handlers = [], incomingRequests = [], pendingRequests = [], progressTokenIndex = [],
      abortListeners = [], aborted = {}, controllers = 0, settled = Map.empty, promises = 0,
      sent = []\<rparr>"

subsection \<open>Handlers\<close>

text \<open>
  \<^verbatim>\<open>this.handlers.set(method, handler)\<close>. \<open>Map.prototype.set\<close> has no failing branch; the
  result keeps the alternative of an exception so that a failing registration can be
  expressed.
\<close>

definition registerHandler :: "string \<Rightarrow> 'h \<Rightarrow> 'h Protocol \<Rightarrow> exn + 'h Protocol" where
  "registerHandler m handler p = Inr (p\<lparr>handlers := AList.update m handler (handlers p)\<rparr>)"

text \<open>What the awaited handler gives back: a result, or a thrown value.\<close>

datatype handled = HandlerResult json | HandlerThrew exn

definition message_method :: "json \<Rightarrow> string" where
  "message_method message = (case js_get message ''method'' of Some (JStr m) \<Rightarrow> m | _ \<Rightarrow> [])"

definition handle :: "'h Protocol \<Rightarrow> json \<Rightarrow> ('h \<Rightarrow> handled) \<Rightarrow> handled" where
  "handle p message run =
     (case map_of (handlers p) (message_method message) of
        None \<Rightarrow> HandlerThrew (MethodNotFoundError (message_method message))
      | Some handler \<Rightarrow> run handler)"

subsection \<open>Incoming requests and cancellation\<close>

definition transport_send ::
  "Connection \<Rightarrow> json \<Rightarrow> TransportSendOptions \<Rightarrow> 'h Protocol \<Rightarrow> exn option \<times> 'h Protocol" where
  "transport_send c message opts p =
     (sendRejects c message opts, p\<lparr>sent := sent p @ [(conn_id c, message, opts)]\<rparr>)"

text \<open>
  \<open>processRequest\<close> up to its \<^verbatim>\<open>await this.handle(...)\<close>: a new abort controller is stored
  under the key of the request.
\<close>

definition processRequest_begin ::
  "Connection \<Rightarrow> json \<Rightarrow> string option \<Rightarrow> 'h Protocol \<Rightarrow> nat \<times> 'h Protocol" where
  "processRequest_begin c message sessId p =
     (let controller = controllers p;
          incomingRequestId = mapRequestKey (conn_id c) sessId (request_id message)
      in (controller,
          p\<lparr>incomingRequests := AList.update incomingRequestId controller (incomingRequests p),
            controllers := Suc controller\<rparr>))"

definition response_options :: "string option \<Rightarrow> json \<Rightarrow> TransportSendOptions" where
  "response_options sessId reqId =
     \<lparr>TransportSendOptions.sessionId = sessId,
      TransportSendOptions.requestId = Some (String_js reqId),
      timeout = None\<rparr>"

definition success_envelope :: "json \<Rightarrow> json \<Rightarrow> json" where
  "success_envelope reqId result = JObj [(''jsonrpc'', JStr ''2.0''), (''id'', reqId), (''result'', result)]"

definition jsonRpcError :: "json \<Rightarrow> exn \<Rightarrow> json" where
  "jsonRpcError reqId mcpError =
     JObj [(''jsonrpc'', JStr ''2.0''), (''id'', reqId), (''error'', error_object mcpError)]"

text \<open>The \<open>catch\<close> block of \<open>processRequest\<close>.\<close>

definition processRequest_catch ::
  "Connection \<Rightarrow> json \<Rightarrow> string option \<Rightarrow> nat \<Rightarrow> exn \<Rightarrow> 'h Protocol \<Rightarrow> exn option \<times> 'h Protocol" where
  "processRequest_catch c message sessId controller err p =
     (if controller \<notin> aborted p then
        transport_send c (jsonRpcError (request_id message) (as_protocol_error err))
          (response_options sessId (request_id message)) p
      else (None, p))"

text \<open>
  \<open>processRequest\<close> from the moment the handler has settled: the \<open>try\<close> block after the
  \<open>await\<close>, the \<open>catch\<close> block and the \<open>finally\<close> block. The exception returned is the one
  that leaves \<open>processRequest\<close>.
\<close>

definition processRequest_settle ::
  "Connection \<Rightarrow> json \<Rightarrow> string option \<Rightarrow> nat \<Rightarrow> handled \<Rightarrow> 'h Protocol \<Rightarrow> exn option \<times> 'h Protocol" where
  "processRequest_settle c message sessId controller result p =
     (let incomingRequestId = mapRequestKey (conn_id c) sessId (request_id message);
          (raised, p1) =
            (case result of
               HandlerResult r \<Rightarrow>
                 (if controller \<notin> aborted p then
                    (case transport_send c (success_envelope (request_id message) r)
                            (response_options sessId (request_id message)) p of
                       (None, p') \<Rightarrow> (None, p')
                     | (Some e, p') \<Rightarrow> processRequest_catch c message sessId controller e p')
                  else (None, p))
             | HandlerThrew err \<Rightarrow> processRequest_catch c message sessId controller err p)
      in (raised, p1\<lparr>incomingRequests := AList.delete incomingRequestId (incomingRequests p1)\<rparr>))"

definition cancelled_requestId :: "json \<Rightarrow> json" where
  "cancelled_requestId message =
     (case opt_get (js_get message ''params'') ''requestId'' of Some i \<Rightarrow> i | None \<Rightarrow> JNull)"

definition handleCancellation :: "Connection \<Rightarrow> json \<Rightarrow> string option \<Rightarrow> 'h Protocol \<Rightarrow> 'h Protocol" where
  "handleCancellation c message sessId p =
     (let incomingRequestId = mapRequestKey (conn_id c) sessId (cancelled_requestId message)
      in case map_of (incomingRequests p) incomingRequestId of
           Some controller \<Rightarrow>
             p\<lparr>aborted := insert controller (aborted p),
               incomingRequests := AList.delete incomingRequestId (incomingRequests p)\<rparr>
         | None \<Rightarrow> p)"

subsection \<open>Outgoing requests\<close>

definition settle_promise :: "nat \<Rightarrow> settlement \<Rightarrow> 'h Protocol \<Rightarrow> 'h Protocol" where
  "settle_promise q v p = (case settled p q of None \<Rightarrow> p\<lparr>settled := (settled p)(q \<mapsto> v)\<rparr> | Some old \<Rightarrow> p)"

definition clearRequest :: "string \<Rightarrow> 'h Protocol \<Rightarrow> 'h Protocol" where
  "clearRequest requestKey p =
     (case map_of (pendingRequests p) requestKey of
        Some request \<Rightarrow>
          p\<lparr>pendingRequests := AList.delete requestKey (pendingRequests p),
            progressTokenIndex := AList.delete requestKey (progressTokenIndex p)\<rparr>
      | None \<Rightarrow> p)"

definition reject :: "string \<Rightarrow> exn \<Rightarrow> 'h Protocol \<Rightarrow> 'h Protocol" where
  "reject requestKey err p =
     (case map_of (pendingRequests p) requestKey of
        Some request \<Rightarrow> settle_promise (pr_promise request) (RejectedWith err) (clearRequest requestKey p)
      | None \<Rightarrow> p)"

record RequestOptions =
  route_sessionId :: "string option"
  request_timeout :: "nat option"
  signal :: "nat option"
  onProgress :: bool
  resetTimeoutOnProgress :: bool

definition DEFAULT_REQUEST_TIMEOUT_MS :: nat where
  "DEFAULT_REQUEST_TIMEOUT_MS = 60000"

text \<open>
  The request path of \<open>send\<close>, for a message whose method does not start with
  \<open>notifications/\<close>: the listener on the external signal, the pending entry, the progress
  token, the timer, and the hand-over to the transport. The result is the promise.
\<close>

definition send_request ::
  "Connection \<Rightarrow> json \<Rightarrow> RequestOptions \<Rightarrow> 'h Protocol \<Rightarrow> nat \<times> 'h Protocol" where
  "send_request c request opts p =
     (let abortController = controllers p;
          sessId = route_sessionId opts;
          tmo = nullish (request_timeout opts) DEFAULT_REQUEST_TIMEOUT_MS;
          pendingRequestKey = mapRequestKey (conn_id c) sessId (request_id request);
          promise = promises p;
          p1 = p\<lparr>controllers := Suc abortController, promises := Suc promise,
                 abortListeners :=
                   (case signal opts of
                      Some sg \<Rightarrow> abortListeners p @ [(sg, pendingRequestKey, abortController)]
                    | None \<Rightarrow> abortListeners p)\<rparr>;
          pendingRequest =
            \<lparr>pr_requestId = request_id request, pr_connection = conn_id c, pr_promise = promise,
             pr_abortController = abortController, pr_onProgress = onProgress opts,
             pr_timeout = Some tmo\<rparr>;
          p2 = p1\<lparr>pendingRequests := AList.update pendingRequestKey pendingRequest (pendingRequests p1)\<rparr>;
          params = js_get request ''params'';
          progressToken = opt_get (opt_get params ''_meta'') ''progressToken'';
          p3 = (if onProgress opts \<and> truthy params \<and> typeof params = ''object'' \<and> truthy progressToken
                then p2\<lparr>progressTokenIndex :=
                          AList.update (mapProgressKey (conn_id c) sessId (the progressToken))
                            pendingRequestKey (progressTokenIndex p2)\<rparr>
                else p2);
          sendOptions = \<lparr>TransportSendOptions.sessionId = sessId,
                         TransportSendOptions.requestId = None, timeout = None\<rparr>
      in case transport_send c request sendOptions p3 of
           (None, p4) \<Rightarrow> (promise, p4)
         | (Some e, p4) \<Rightarrow> (promise, reject pendingRequestKey (InternalError (exn_message e)) p4))"

text \<open>
  The listener \<open>send\<close> adds to \<open>options.signal\<close>, and the abort of a signal, which runs its
  listeners in the order they were added.
\<close>

definition abort_listener :: "string \<Rightarrow> nat \<Rightarrow> 'h Protocol \<Rightarrow> 'h Protocol" where
  "abort_listener pendingRequestKey abortController p =
     (let p1 = p\<lparr>aborted := insert abortController (aborted p)\<rparr>
      in case map_of (pendingRequests p1) pendingRequestKey of
           Some pending \<Rightarrow>
             settle_promise (pr_promise pending)
               (RejectedWith (InternalError ''Request aborted by external signal''))
               (clearRequest pendingRequestKey p1)
         | None \<Rightarrow> p1)"

definition signal_abort :: "nat \<Rightarrow> 'h Protocol \<Rightarrow> 'h Protocol" where
  "signal_abort sg p =
     fold (\<lambda>(sg', key, controller) q. if sg' = sg then abort_listener key controller q else q)
       (abortListeners p) p"

subsection \<open>Traces of the engine\<close>

text \<open>
  The steps that may run while a handler is awaited: another request arrives or settles, a
  cancellation arrives, a handler is registered, a request goes out, an external signal
  aborts.
\<close>

datatype 'h engine_event =
    Arrives Connection json "string option"
  | Settles Connection json "string option" nat handled
  | Cancels Connection json "string option"
  | Registers string 'h
  | Sends Connection json RequestOptions
  | Aborts nat

fun engine_step :: "'h engine_event \<Rightarrow> 'h Protocol \<Rightarrow> 'h Protocol" where
  "engine_step (Arrives c message sessId) p = snd (processRequest_begin c message sessId p)"
| "engine_step (Settles c message sessId controller result) p =
     snd (processRequest_settle c message sessId controller result p)"
| "engine_step (Cancels c message sessId) p = handleCancellation c message sessId p"
| "engine_step (Registers m handler) p = (case registerHandler m handler p of Inr p' \<Rightarrow> p' | Inl e \<Rightarrow> p)"
| "engine_step (Sends c request opts) p = snd (send_request c request opts p)"
| "engine_step (Aborts sg) p = signal_abort sg p"

definition engine_run :: "'h engine_event list \<Rightarrow> 'h Protocol \<Rightarrow> 'h Protocol" where
  "engine_run evs p = fold engine_step evs p"

section \<open>Example configurations and messages\<close>

text \<open>
  A broker that accepts every publish, the options that give only a port and the broker,
  and the transport built from them, connected, with a message handler that never throws.
\<close>

definition quiet_broker :: EventBroker where
  "quiet_broker = \<lparr>publishRejects = (\<lambda>subject message. None)\<rparr>"

definition default_options :: TransportOptions where
  "default_options =
     \<lparr>httpServer = \<lparr>port = 3000, host = None, HttpServerOptions.endpoint = None, middlewares = None\<rparr>,
      streamableHttp = None, sessions = None, eventBroker = Some quiet_broker\<rparr>"

definition default_transport :: Transport where
  "default_transport = connect (withMessageHandler (\<lambda>message. None) (projr (constructor default_options)))"

definition example_request :: "json \<Rightarrow> string \<Rightarrow> json" where
  "example_request i m = JObj [(''jsonrpc'', JStr ''2.0''), (''id'', i), (''method'', JStr m)]"

definition example_response :: "json \<Rightarrow> json" where
  "example_response i = JObj [(''jsonrpc'', JStr ''2.0''), (''id'', i), (''result'', JObj [])]"

definition example_notification :: "string \<Rightarrow> json" where
  "example_notification m = JObj [(''jsonrpc'', JStr ''2.0''), (''method'', JStr m)]"

definition example_post :: "json \<Rightarrow> http_request" where
  "example_post parsed =
     \<lparr>httpMethod = ''POST'', pathname = ''/'', querySessionId = None,
      accept = Some ''application/json, text/event-stream'', mcpSessionId = None,
      requestBody = Parsed parsed\<rparr>"

text \<open>
  The same transport on a broker that rejects every publish.
\<close>

definition failing_broker :: EventBroker where
  "failing_broker = \<lparr>publishRejects = (\<lambda>subject message. Some (Foreign ''broker unavailable''))\<rparr>"

definition failing_transport :: Transport where
  "failing_transport =
     connect (withMessageHandler (\<lambda>message. None)
       (projr (constructor (default_options\<lparr>eventBroker := Some failing_broker\<rparr>))))"

text \<open>
  A connection whose transport accepts every send, a request with a progress token, the
  options of a caller that listens for progress and passes the external signal \<open>0\<close>, and
  the cancellation of a request.
\<close>

definition example_connection :: Connection where
  "example_connection = \<lparr>conn_id = ''c1'', sendRejects = (\<lambda>message opts. None)\<rparr>"

definition example_progress_request :: "json \<Rightarrow> json \<Rightarrow> json" where
  "example_progress_request i token =
     JObj [(''jsonrpc'', JStr ''2.0''), (''id'', i), (''method'', JStr ''tools/call''),
           (''params'', JObj [(''_meta'', JObj [(''progressToken'', token)])])]"

definition example_request_options :: RequestOptions where
  "example_request_options =
     \<lparr>route_sessionId = Some ''s1'', request_timeout = None, signal = Some 0, onProgress = True,
      resetTimeoutOnProgress = False\<rparr>"

definition example_cancellation :: "json \<Rightarrow> json" where
  "example_cancellation i =
     JObj [(''jsonrpc'', JStr ''2.0''), (''method'', JStr ''notifications/cancelled''),
           (''params'', JObj [(''requestId'', i)])]"

section \<open>Properties\<close>

subsection \<open>Topic subjects\<close>

lemma dot_split_unique:
  assumes "dot_free a" "dot_free b" "a @ CHR ''.'' # x = b @ CHR ''.'' # y"
  shows "a = b \<and> x = y"
  using assms
proof (induction a arbitrary: b)
  case Nil
  then show ?case by (cases b) (auto simp: dot_free_def)
next
  case (Cons c a)
  then show ?case by (cases b) (auto simp: dot_free_def)
qed

lemma request_scoped_inj:
  assumes "dot_free (SessionScopeParams.sessionId p)" "dot_free (SessionScopeParams.sessionId q)"
  shows "createRequestScopedTopic sfx p = createRequestScopedTopic sfx q \<longleftrightarrow> p = (q::RequestScopeParams)"
proof
  assume "createRequestScopedTopic sfx p = createRequestScopedTopic sfx q"
  then have "SessionScopeParams.sessionId p @ CHR ''.'' # (RequestScopeParams.requestId p @ ''.'' @ sfx)
           = SessionScopeParams.sessionId q @ CHR ''.'' # (RequestScopeParams.requestId q @ ''.'' @ sfx)"
    by (simp add: createRequestScopedTopic_def)
  from dot_split_unique[OF assms this]
  show "p = q" by simp
next
  assume "p = q" then show "createRequestScopedTopic sfx p = createRequestScopedTopic sfx q" by simp
qed

lemma session_scoped_inj:
  "createSessionScopedTopic sfx u = createSessionScopedTopic sfx v \<longleftrightarrow> u = (v::SessionScopeParams)"
  by (auto simp: createSessionScopedTopic_def)

lemma request_vs_session:
  assumes "dot_free (SessionScopeParams.sessionId p)" "dot_free (SessionScopeParams.sessionId u)"
    and "RequestScopeParams.requestId p \<noteq> ''bg''"
  shows "createRequestScopedTopic sfx (p::RequestScopeParams) \<noteq> createSessionScopedTopic sfx (u::SessionScopeParams)"
proof
  assume "createRequestScopedTopic sfx p = createSessionScopedTopic sfx u"
  then have "SessionScopeParams.sessionId p @ CHR ''.'' # (RequestScopeParams.requestId p @ ''.'' @ sfx)
           = SessionScopeParams.sessionId u @ CHR ''.'' # (''bg'' @ ''.'' @ sfx)"
    by (simp add: createRequestScopedTopic_def createSessionScopedTopic_def)
  from dot_split_unique[OF assms(1,2) this] assms(3)
  show False by simp
qed

lemma in_out_differ:
  "a @ ''inbound'' \<noteq> b @ ''outbound''"
proof
  assume "a @ ''inbound'' = b @ ''outbound''"
  then have "rev (a @ ''inbound'') = rev (b @ ''outbound'')" by simp
  then show False by simp
qed

lemma cross1: "createRequestScopedTopic ''inbound'' p \<noteq> createRequestScopedTopic ''outbound'' q"
  using in_out_differ[of "''mcp.'' @ SessionScopeParams.sessionId p @ ''.'' @ RequestScopeParams.requestId p @ ''.''"
       "''mcp.'' @ SessionScopeParams.sessionId q @ ''.'' @ RequestScopeParams.requestId q @ ''.''"]
  by (simp add: createRequestScopedTopic_def)

lemma cross2: "createRequestScopedTopic ''inbound'' p \<noteq> createSessionScopedTopic ''outbound'' u"
  using in_out_differ[of "''mcp.'' @ SessionScopeParams.sessionId p @ ''.'' @ RequestScopeParams.requestId p @ ''.''"
       "''mcp.'' @ SessionScopeParams.sessionId u @ ''.bg.''"]
  by (simp add: createRequestScopedTopic_def createSessionScopedTopic_def)

lemma cross3: "createSessionScopedTopic ''inbound'' u \<noteq> createRequestScopedTopic ''outbound'' p"
  using in_out_differ[of "''mcp.'' @ SessionScopeParams.sessionId u @ ''.bg.''"
      "''mcp.'' @ SessionScopeParams.sessionId p @ ''.'' @ RequestScopeParams.requestId p @ ''.''"]
  by (simp add: createRequestScopedTopic_def createSessionScopedTopic_def)

lemma cross4: "createSessionScopedTopic ''inbound'' u \<noteq> createSessionScopedTopic ''outbound'' v"
  using in_out_differ[of "''mcp.'' @ SessionScopeParams.sessionId u @ ''.bg.''"
      "''mcp.'' @ SessionScopeParams.sessionId v @ ''.bg.''"]
  by (simp add: createRequestScopedTopic_def createSessionScopedTopic_def)

text \<open>
  Claim C1, as amended. For session ids that contain no dot and a request id other than
  \<open>bg\<close>, the four topic constructors are injective in their parameters and their
  subjects never coincide across families: request-scoped against session-scoped, and
  inbound against outbound.
\<close>

theorem topic_subjects_distinct:
  fixes p q :: RequestScopeParams and u v :: SessionScopeParams
  assumes "dot_free (SessionScopeParams.sessionId p)" "dot_free (SessionScopeParams.sessionId q)"
    and "dot_free (SessionScopeParams.sessionId u)"
    and "RequestScopeParams.requestId p \<noteq> ''bg''"
  shows "(RequestInbound p = RequestInbound q \<longleftrightarrow> p = q)
       \<and> (RequestOutbound p = RequestOutbound q \<longleftrightarrow> p = q)
       \<and> (BackgroundOutbound u = BackgroundOutbound v \<longleftrightarrow> u = v)
       \<and> (BackgroundInbound u = BackgroundInbound v \<longleftrightarrow> u = v)
       \<and> RequestInbound p \<noteq> RequestOutbound q
       \<and> BackgroundInbound u \<noteq> BackgroundOutbound v
       \<and> RequestInbound p \<noteq> BackgroundInbound u
       \<and> RequestInbound p \<noteq> BackgroundOutbound u
       \<and> RequestOutbound p \<noteq> BackgroundOutbound u
       \<and> RequestOutbound p \<noteq> BackgroundInbound u"
proof -
  have a: "RequestInbound p = RequestInbound q \<longleftrightarrow> p = q"
    unfolding RequestInbound_def by (rule request_scoped_inj[OF assms(1,2)])
  have b: "RequestOutbound p = RequestOutbound q \<longleftrightarrow> p = q"
    unfolding RequestOutbound_def by (rule request_scoped_inj[OF assms(1,2)])
  have c: "BackgroundOutbound u = BackgroundOutbound v \<longleftrightarrow> u = v"
    unfolding BackgroundOutbound_def by (rule session_scoped_inj)
  have d: "BackgroundInbound u = BackgroundInbound v \<longleftrightarrow> u = v"
    unfolding BackgroundInbound_def by (rule session_scoped_inj)
  have e: "RequestInbound p \<noteq> RequestOutbound q"
    unfolding RequestInbound_def RequestOutbound_def by (rule cross1)
  have f: "BackgroundInbound u \<noteq> BackgroundOutbound v"
    unfolding BackgroundInbound_def BackgroundOutbound_def by (rule cross4)
  have g: "RequestInbound p \<noteq> BackgroundInbound u"
    unfolding RequestInbound_def BackgroundInbound_def by (rule request_vs_session[OF assms(1,3,4)])
  have h: "RequestInbound p \<noteq> BackgroundOutbound u"
    unfolding RequestInbound_def BackgroundOutbound_def by (rule cross2)
  have i: "RequestOutbound p \<noteq> BackgroundOutbound u"
    unfolding RequestOutbound_def BackgroundOutbound_def by (rule request_vs_session[OF assms(1,3,4)])
  have j: "RequestOutbound p \<noteq> BackgroundInbound u"
    unfolding RequestOutbound_def BackgroundInbound_def using cross3[of u p] by simp
  from a b c d e f g h i j show ?thesis by blast
qed

text \<open>
  Claim C1 as stated fails: identifiers are interpolated as they are. The request id \<open>bg\<close>
  makes the request-outbound subject of a session equal to its background-outbound
  subject, and a dot in a session id moves the boundary between the two identifiers.
\<close>

theorem topic_subjects_collide:
  "RequestOutbound \<lparr>SessionScopeParams.sessionId = ''s'', RequestScopeParams.requestId = ''bg''\<rparr>
     = BackgroundOutbound \<lparr>SessionScopeParams.sessionId = ''s''\<rparr>
   \<and> RequestInbound \<lparr>SessionScopeParams.sessionId = ''a.b'', RequestScopeParams.requestId = ''c''\<rparr>
     = RequestInbound \<lparr>SessionScopeParams.sessionId = ''a'', RequestScopeParams.requestId = ''b.c''\<rparr>"
  by (simp add: RequestOutbound_def BackgroundOutbound_def RequestInbound_def
      createRequestScopedTopic_def createSessionScopedTopic_def)

text \<open>The amended claim C1 at two sessions \<open>s1\<close>, \<open>s2\<close> and the request id \<open>r1\<close>.\<close>

theorem topic_subjects_distinct_witness:
  "dot_free ''s1'' \<and> dot_free ''s2'' \<and> ''r1'' \<noteq> ''bg''
   \<and> RequestOutbound \<lparr>SessionScopeParams.sessionId = ''s1'', RequestScopeParams.requestId = ''r1''\<rparr>
       \<noteq> BackgroundOutbound \<lparr>SessionScopeParams.sessionId = ''s1''\<rparr>
   \<and> RequestInbound \<lparr>SessionScopeParams.sessionId = ''s1'', RequestScopeParams.requestId = ''r1''\<rparr>
       \<noteq> RequestInbound \<lparr>SessionScopeParams.sessionId = ''s2'', RequestScopeParams.requestId = ''r1''\<rparr>"
  using topic_subjects_distinct[of
      "\<lparr>SessionScopeParams.sessionId = ''s1'', RequestScopeParams.requestId = ''r1''\<rparr>"
      "\<lparr>SessionScopeParams.sessionId = ''s2'', RequestScopeParams.requestId = ''r1''\<rparr>"
      "\<lparr>SessionScopeParams.sessionId = ''s1''\<rparr>" "\<lparr>SessionScopeParams.sessionId = ''s1''\<rparr>"]
  by (simp add: dot_free_def)

subsection \<open>The default response mode\<close>

lemma opt_get_Some: "opt_get (Some v) key = js_get v key"
  by (cases v) simp_all

lemma opt_get_eq_Some: "opt_get x key = Some y \<longleftrightarrow> (\<exists>v. x = Some v \<and> js_get v key = Some y)"
  by (cases x) (simp_all add: opt_get_Some)

lemma progressToken_defined:
  "opt_get (opt_get (js_get msg ''params'') ''_meta'') ''progressToken'' \<noteq> None \<longleftrightarrow>
     (\<exists>params meta token. js_get msg ''params'' = Some params \<and> js_get params ''_meta'' = Some meta
        \<and> js_get meta ''progressToken'' = Some token)"
proof -
  have "opt_get (opt_get (js_get msg ''params'') ''_meta'') ''progressToken'' \<noteq> None \<longleftrightarrow>
        (\<exists>token. opt_get (opt_get (js_get msg ''params'') ''_meta'') ''progressToken'' = Some token)"
    by auto
  then show ?thesis by (simp only: opt_get_eq_Some) blast
qed

lemma streaming_method:
  "(case js_get msg ''method'' of Some (JStr m) \<Rightarrow> m \<in> set STREAMING_METHODS | _ \<Rightarrow> False) \<longleftrightarrow>
     js_get msg ''method'' \<in> {Some (JStr ''tools/call''), Some (JStr ''sampling/createMessage''),
                              Some (JStr ''prompts/get'')}"
  by (auto simp: STREAMING_METHODS_def split: option.splits json.splits)

lemma strategy_shape:
  "(if R then if M then ModeSse else if T then ModeSse else (if B then ModeSse else ModeJson)
    else (if B then ModeSse else ModeJson))
   = (if R \<and> (M \<or> T) \<or> B then ModeSse else ModeJson)"
  by simp

text \<open>
  Claim C4. The default policy answers \<open>sse\<close> exactly when some message of the list is a
  request whose method is \<open>tools/call\<close>, \<open>sampling/createMessage\<close> or \<open>prompts/get\<close>, or
  a request whose \<open>params\<close> has a member \<open>_meta\<close> that has a member \<open>progressToken\<close>; it
  answers \<open>json\<close> otherwise.
\<close>

theorem default_response_mode:
  "defaultResponseModeStrategy messages session =
     (if \<exists>msg \<in> set messages. isJSONRPCRequest msg \<and>
           (js_get msg ''method'' \<in> {Some (JStr ''tools/call''), Some (JStr ''sampling/createMessage''),
                                     Some (JStr ''prompts/get'')}
            \<or> (\<exists>params meta token. js_get msg ''params'' = Some params
                  \<and> js_get params ''_meta'' = Some meta \<and> js_get meta ''progressToken'' = Some token))
      then ModeSse else ModeJson)"
proof (induction messages)
  case Nil
  show ?case by simp
next
  case (Cons msg messages)
  show ?case
    unfolding defaultResponseModeStrategy.simps Cons.IH streaming_method progressToken_defined
    by (simp only: list.set bex_simps) (rule strategy_shape)
qed

text \<open>
  Claim C4 at two lists: a \<open>ping\<close> request followed by a \<open>tools/call\<close> request gives
  \<open>sse\<close>; a \<open>ping\<close> request followed by a \<open>tools/call\<close> notification gives \<open>json\<close>.
\<close>

theorem default_response_mode_witness:
  "defaultResponseModeStrategy
     [JObj [(''jsonrpc'', JStr ''2.0''), (''id'', JNum 1), (''method'', JStr ''ping'')],
      JObj [(''jsonrpc'', JStr ''2.0''), (''id'', JNum 2), (''method'', JStr ''tools/call''),
            (''params'', JObj [(''name'', JStr ''echo'')])]] None = ModeSse
   \<and> defaultResponseModeStrategy
     [JObj [(''jsonrpc'', JStr ''2.0''), (''id'', JNum 1), (''method'', JStr ''ping'')],
      JObj [(''jsonrpc'', JStr ''2.0''), (''method'', JStr ''tools/call'')]] None = ModeJson"
  using default_response_mode[of
     "[JObj [(''jsonrpc'', JStr ''2.0''), (''id'', JNum 1), (''method'', JStr ''ping'')],
      JObj [(''jsonrpc'', JStr ''2.0''), (''id'', JNum 2), (''method'', JStr ''tools/call''),
            (''params'', JObj [(''name'', JStr ''echo'')])]]" None]
    default_response_mode[of
     "[JObj [(''jsonrpc'', JStr ''2.0''), (''id'', JNum 1), (''method'', JStr ''ping'')],
      JObj [(''jsonrpc'', JStr ''2.0''), (''method'', JStr ''tools/call'')]]" None]
  by (simp add: isJSONRPCRequest_def hasJSONRPCVersion_def has_key_def JSONRPC_VERSION_def)

subsection \<open>Routing of \<open>send\<close>\<close>

lemma default_transport_eq:
  "default_transport =
     \<lparr>Transport.endpoint = ''/'', Transport.responseTimeoutMs = 30000,
      Transport.responseModeStrategy = defaultResponseModeStrategy,
      Transport.enableBackgroundChannel = True, Transport.enableSessionTermination = True,
      options = default_options, broker = quiet_broker, messageHandler = Some (\<lambda>message. None),
      listening = True\<rparr>"
  by (simp add: default_transport_def constructor_def default_options_def connect_def
      withMessageHandler_def nullish_def via_def DEFAULT_ENDPOINT_def DEFAULT_RESPONSE_TIMEOUT_MS_def
      DEFAULT_ENABLE_BACKGROUND_CHANNEL_def DEFAULT_ENABLE_SESSION_TERMINATION_def)

text \<open>
  Claim C5, as amended. \<open>send\<close> fails with an error and publishes nothing when there are no
  options or the session id is absent or empty. With a non-empty session id and a
  non-empty request id it publishes the message on the request-outbound subject of the
  two. With a non-empty session id and a request id that is absent or empty it publishes
  a JSON-RPC request on the background-inbound subject of the session and any other
  message on its background-outbound subject.
\<close>

theorem send_routing:
  "((opts = None \<or> (\<exists>o'. opts = Some o' \<and> (TransportSendOptions.sessionId o' = None
                                              \<or> TransportSendOptions.sessionId o' = Some [])))
      \<longrightarrow> send t message opts fx = (Some (Error ''Cannot send message: Missing sessionId in options''), fx))
   \<and> (\<forall>o' s r. opts = Some o' \<and> TransportSendOptions.sessionId o' = Some s \<and> s \<noteq> []
          \<and> TransportSendOptions.requestId o' = Some r \<and> r \<noteq> []
      \<longrightarrow> send t message opts fx =
            publish (broker t)
              (RequestOutbound \<lparr>SessionScopeParams.sessionId = s, RequestScopeParams.requestId = r\<rparr>)
              message fx)
   \<and> (\<forall>o' s. opts = Some o' \<and> TransportSendOptions.sessionId o' = Some s \<and> s \<noteq> []
          \<and> (TransportSendOptions.requestId o' = None \<or> TransportSendOptions.requestId o' = Some [])
      \<longrightarrow> send t message opts fx =
            publish (broker t)
              (if isJSONRPCRequest message
               then BackgroundInbound \<lparr>SessionScopeParams.sessionId = s\<rparr>
               else BackgroundOutbound \<lparr>SessionScopeParams.sessionId = s\<rparr>)
              message fx)"
  by (auto simp: send_def via_def Let_def)

text \<open>
  Claim C5 as stated fails where an identifier is present but empty: the guards
  \<^verbatim>\<open>if (!sessionId)\<close> and \<^verbatim>\<open>options?.requestId ? ... : undefined\<close> test truthiness. With
  the empty session id and the request id \<open>r1\<close> the call is refused and nothing is
  published. With the session id \<open>s1\<close> and the empty request id a response is published on
  the background-outbound subject of the session, not on a request-outbound subject.
\<close>

theorem send_empty_ids:
  "send default_transport (example_response (JNum 1))
     (Some \<lparr>TransportSendOptions.sessionId = Some [], TransportSendOptions.requestId = Some ''r1'',
            timeout = None\<rparr>) no_effects
   = (Some (Error ''Cannot send message: Missing sessionId in options''), no_effects)
   \<and> send default_transport (example_response (JNum 1))
     (Some \<lparr>TransportSendOptions.sessionId = Some ''s1'', TransportSendOptions.requestId = Some [],
            timeout = None\<rparr>) no_effects
   = (None, no_effects\<lparr>published := [(''mcp.s1.bg.outbound'', example_response (JNum 1))]\<rparr>)
   \<and> RequestOutbound \<lparr>SessionScopeParams.sessionId = ''s1'', RequestScopeParams.requestId = []\<rparr>
     = ''mcp.s1..outbound''"
  by (simp add: send_def via_def default_transport_eq publish_def quiet_broker_def no_effects_def
      RequestOutbound_def BackgroundOutbound_def createRequestScopedTopic_def
      createSessionScopedTopic_def example_response_def
      isJSONRPCRequest_def hasJSONRPCVersion_def has_key_def JSONRPC_VERSION_def)

text \<open>
  The amended claim C5 on the default transport: a response for request \<open>r1\<close> of session
  \<open>s1\<close>, a server request and a server notification for session \<open>s1\<close>, a response with an
  empty request id, and a call without options.
\<close>

theorem send_routing_witness:
  "send default_transport (example_request (JNum 1) ''ping'')
     (Some \<lparr>TransportSendOptions.sessionId = Some ''s1'', TransportSendOptions.requestId = Some ''r1'',
            timeout = None\<rparr>) no_effects
   = (None, no_effects\<lparr>published := [(''mcp.s1.r1.outbound'', example_request (JNum 1) ''ping'')]\<rparr>)
   \<and> send default_transport (example_request (JNum 1) ''ping'')
     (Some \<lparr>TransportSendOptions.sessionId = Some ''s1'', TransportSendOptions.requestId = None,
            timeout = None\<rparr>) no_effects
   = (None, no_effects\<lparr>published := [(''mcp.s1.bg.inbound'', example_request (JNum 1) ''ping'')]\<rparr>)
   \<and> send default_transport (example_notification ''notifications/tools/list_changed'')
     (Some \<lparr>TransportSendOptions.sessionId = Some ''s1'', TransportSendOptions.requestId = None,
            timeout = None\<rparr>) no_effects
   = (None, no_effects\<lparr>published :=
        [(''mcp.s1.bg.outbound'', example_notification ''notifications/tools/list_changed'')]\<rparr>)
   \<and> send default_transport (example_response (JNum 1))
     (Some \<lparr>TransportSendOptions.sessionId = Some ''s1'', TransportSendOptions.requestId = Some [],
            timeout = None\<rparr>) no_effects
   = (None, no_effects\<lparr>published := [(''mcp.s1.bg.outbound'', example_response (JNum 1))]\<rparr>)
   \<and> send default_transport (example_request (JNum 1) ''ping'') None no_effects
   = (Some (Error ''Cannot send message: Missing sessionId in options''), no_effects)"
  using send_routing[of "Some \<lparr>TransportSendOptions.sessionId = Some ''s1'',
            TransportSendOptions.requestId = Some ''r1'', timeout = None\<rparr>"
          default_transport "example_request (JNum 1) ''ping''" no_effects]
    send_routing[of "Some \<lparr>TransportSendOptions.sessionId = Some ''s1'',
            TransportSendOptions.requestId = None, timeout = None\<rparr>"
          default_transport "example_request (JNum 1) ''ping''" no_effects]
    send_routing[of "Some \<lparr>TransportSendOptions.sessionId = Some ''s1'',
            TransportSendOptions.requestId = None, timeout = None\<rparr>"
          default_transport "example_notification ''notifications/tools/list_changed''" no_effects]
    send_routing[of "Some \<lparr>TransportSendOptions.sessionId = Some ''s1'',
            TransportSendOptions.requestId = Some [], timeout = None\<rparr>"
          default_transport "example_response (JNum 1)" no_effects]
    send_routing[of None default_transport "example_request (JNum 1) ''ping''" no_effects]
  by (simp add: default_transport_eq publish_def quiet_broker_def no_effects_def
      RequestOutbound_def BackgroundInbound_def BackgroundOutbound_def
      createRequestScopedTopic_def createSessionScopedTopic_def
      example_request_def example_notification_def example_response_def
      isJSONRPCRequest_def hasJSONRPCVersion_def has_key_def JSONRPC_VERSION_def)

subsection \<open>Registration of handlers\<close>

text \<open>
  Claim C8, as amended. After \<open>registerHandler m h1\<close> has succeeded, a second call
  \<open>registerHandler m h2\<close> succeeds too and replaces the handler: the table then maps \<open>m\<close>
  to \<open>h2\<close> and every other method as before.
\<close>

theorem registerHandler_replaces:
  "registerHandler m h1 p = Inr p1 \<Longrightarrow>
     (\<exists>p2. registerHandler m h2 p1 = Inr p2 \<and> map_of (handlers p2) m = Some h2
           \<and> (\<forall>m'. m' \<noteq> m \<longrightarrow> map_of (handlers p2) m' = map_of (handlers p1) m'))"
  by (auto simp: registerHandler_def update_conv')

text \<open>
  Claim C8 as stated fails: registering \<open>ping\<close> a second time is not an error, it
  overwrites the first handler.
\<close>

theorem registerHandler_twice_succeeds:
  "registerHandler ''ping'' (2::nat) (projr (registerHandler ''ping'' (1::nat) new_Protocol))
     = Inr (new_Protocol\<lparr>handlers := [(''ping'', 2)]\<rparr>)"
  by (simp add: registerHandler_def new_Protocol_def)

text \<open>
  The amended claim C8 on a new engine, with handlers \<open>1\<close> and \<open>2\<close> for \<open>ping\<close>.
\<close>

theorem registerHandler_replaces_witness:
  "registerHandler ''ping'' (1::nat) new_Protocol = Inr (new_Protocol\<lparr>handlers := [(''ping'', 1)]\<rparr>)
   \<and> (\<exists>p2. registerHandler ''ping'' (2::nat) (new_Protocol\<lparr>handlers := [(''ping'', 1)]\<rparr>) = Inr p2
            \<and> map_of (handlers p2) ''ping'' = Some 2)"
proof -
  have h: "registerHandler ''ping'' (1::nat) new_Protocol = Inr (new_Protocol\<lparr>handlers := [(''ping'', 1)]\<rparr>)"
    by (simp add: registerHandler_def new_Protocol_def)
  from registerHandler_replaces[OF h, of 2] h show ?thesis by blast
qed

subsection \<open>The router and the POST paths without requests\<close>

lemma deliver_each_ok:
  "(\<forall>m \<in> set ms. h m = None) \<Longrightarrow> deliver_each h ms fx = (None, fx\<lparr>delivered := delivered fx @ ms\<rparr>)"
  by (induction ms arbitrary: fx) simp_all

lemma publish_each_ok:
  "(\<forall>m \<in> set ms. publishRejects b subject m = None) \<Longrightarrow>
     publish_each b subject ms fx = (None, fx\<lparr>published := published fx @ map (Pair subject) ms\<rparr>)"
  by (induction ms arbitrary: fx) (simp_all add: publish_def)

lemma getOrCreateSession_Success:
  "getOrCreateSession t uuid req res = (Success s session isNew, res') \<Longrightarrow> res' = res"
  by (auto simp: getOrCreateSession_def Let_def split: option.splits if_splits)

lemma isJSONRPCRequest_has_method:
  "isJSONRPCRequest v \<Longrightarrow> isObject (Some v) \<and> has_key ''method'' v"
  by (auto simp: isJSONRPCRequest_def hasJSONRPCVersion_def split: if_splits)

lemma post_without_requests:
  assumes mw: "runMiddlewares t req new_response = (None, res1)" "\<not> writableEnded res1"
    and path: "pathname req = Transport.endpoint t" "pathname req \<noteq> ''/health''"
      "pathname req \<noteq> ''/readiness''"
    and post: "httpMethod req = ''POST''"
    and acc: "str_includes (nullish (accept req) []) ''application/json''
           \<or> str_includes (nullish (accept req) []) ''text/event-stream''
           \<or> str_includes (nullish (accept req) []) ''*/*''"
    and sess: "getOrCreateSession t uuid req res1 = (Success s session isNew, res2)"
    and body: "requestBody req = Parsed parsed"
    and ms: "ms = (case parsed of JArr xs \<Rightarrow> xs | _ \<Rightarrow> [parsed])"
    and noreq: "filter isJSONRPCRequest ms = []"
    and hok: "\<forall>h. messageHandler t = Some h \<longrightarrow> (\<forall>m \<in> set ms. h m = None)"
    and bok: "\<forall>m \<in> set ms. publishRejects (broker t) (BackgroundOutbound \<lparr>SessionScopeParams.sessionId = s\<rparr>) m = None"
  shows "handleRequest t uuid events req fx =
           (Returned, end_response NoBody (setStatus 202 res1),
            fx\<lparr>delivered := delivered fx @ delivered_to t ms,
               published := published fx @
                 map (Pair (BackgroundOutbound \<lparr>SessionScopeParams.sessionId = s\<rparr>)) ms\<rparr>)"
proof -
  have res2: "res2 = res1" using sess by (rule getOrCreateSession_Success)
  have parse: "parseRequestBody req res1 = (Some (ms, isArray (Some parsed)), res1)"
    by (simp add: parseRequestBody_def body ms Let_def)
  have deliver: "deliverToProtocol t ms fx = (None, fx\<lparr>delivered := delivered fx @ delivered_to t ms\<rparr>)"
  proof (cases "messageHandler t")
    case None
    then show ?thesis by (simp add: deliverToProtocol_def delivered_to_def)
  next
    case (Some h)
    with hok have "\<forall>m \<in> set ms. h m = None" by simp
    from deliver_each_ok[OF this] Some show ?thesis
      by (simp add: deliverToProtocol_def delivered_to_def)
  qed
  have notif: "handleNotificationsOnly t s ms res1 fx' =
      (Returned, end_response NoBody (setStatus 202 res1),
       fx'\<lparr>published := published fx' @ map (Pair (BackgroundOutbound \<lparr>SessionScopeParams.sessionId = s\<rparr>)) ms\<rparr>)"
    for fx'
    by (simp add: handleNotificationsOnly_def publish_each_ok[OF bok])
  have post': "handlePost t uuid events req res1 fx =
      (Returned, end_response NoBody (setStatus 202 res1),
       fx\<lparr>delivered := delivered fx @ delivered_to t ms,
          published := published fx @ map (Pair (BackgroundOutbound \<lparr>SessionScopeParams.sessionId = s\<rparr>)) ms\<rparr>)"
    using acc by (auto simp add: handlePost_def Let_def sess res2 parse noreq deliver notif)
  have "route t uuid events req new_response fx = handlePost t uuid events req res1 fx"
    using mw path post by (simp add: route_def)
  then show ?thesis by (simp add: handleRequest_def post')
qed


text \<open>
  Claim C3, as amended. A POST to the MCP endpoint whose body is the empty array \<open>[]\<close> is
  answered 202 with an empty body, and nothing is delivered or published, whenever the
  middleware chain lets the request through, the Accept header names \<open>application/json\<close>,
  \<open>text/event-stream\<close> or \<open>*/*\<close>, and the session is found or created.
\<close>

theorem post_empty_batch_accepted:
  assumes "runMiddlewares t req new_response = (None, res1)" "\<not> writableEnded res1"
    and "pathname req = Transport.endpoint t" "pathname req \<noteq> ''/health''"
      "pathname req \<noteq> ''/readiness''"
    and "httpMethod req = ''POST''"
    and "str_includes (nullish (accept req) []) ''application/json''
           \<or> str_includes (nullish (accept req) []) ''text/event-stream''
           \<or> str_includes (nullish (accept req) []) ''*/*''"
    and "getOrCreateSession t uuid req res1 = (Success s session isNew, res2)"
    and "requestBody req = Parsed (JArr [])"
  shows "handleRequest t uuid events req fx = (Returned, end_response NoBody (setStatus 202 res1), fx)"
  using post_without_requests[OF assms, of "[]" events fx]
  by (simp add: delivered_to_def split: option.splits)

text \<open>
  Claim C3 as stated fails: the empty batch holds no request, so it takes the
  notifications-only path. On the default transport the answer is 202, not 400.
\<close>

theorem post_empty_batch_not_400:
  "handleRequest default_transport ''u1'' [] (example_post (JArr [])) no_effects
     = (Returned, \<lparr>statusCode = 202, headers = [], body = NoBody, writableEnded = True\<rparr>, no_effects)"
  by (simp add: handleRequest_def route_def runMiddlewares_def default_transport_eq default_options_def
      example_post_def handlePost_def getOrCreateSession_def parseRequestBody_def nullish_def
      deliverToProtocol_def handleNotificationsOnly_def new_response_def end_response_def
      setStatus_def no_effects_def Let_def)

text \<open>
  The amended claim C3 on the default transport.
\<close>

theorem post_empty_batch_accepted_witness:
  "handleRequest default_transport ''u1'' [] (example_post (JArr [])) no_effects
     = (Returned, end_response NoBody (setStatus 202 new_response), no_effects)"
proof (rule post_empty_batch_accepted)
  show "runMiddlewares default_transport (example_post (JArr [])) new_response = (None, new_response)"
    by (simp add: runMiddlewares_def default_transport_eq default_options_def)
  show "\<not> writableEnded new_response" by (simp add: new_response_def)
  show "pathname (example_post (JArr [])) = Transport.endpoint default_transport"
    by (simp add: example_post_def default_transport_eq)
  show "pathname (example_post (JArr [])) \<noteq> ''/health''" by (simp add: example_post_def)
  show "pathname (example_post (JArr [])) \<noteq> ''/readiness''" by (simp add: example_post_def)
  show "httpMethod (example_post (JArr [])) = ''POST''" by (simp add: example_post_def)
  show "str_includes (nullish (accept (example_post (JArr []))) []) ''application/json''
           \<or> str_includes (nullish (accept (example_post (JArr []))) []) ''text/event-stream''
           \<or> str_includes (nullish (accept (example_post (JArr []))) []) ''*/*''"
    by (simp add: example_post_def nullish_def)
  show "getOrCreateSession default_transport ''u1'' (example_post (JArr [])) new_response
          = (Success ''u1'' None True, new_response)"
    by (simp add: getOrCreateSession_def default_transport_eq default_options_def)
  show "requestBody (example_post (JArr [])) = Parsed (JArr [])" by (simp add: example_post_def)
qed

text \<open>
  Claim C9 fails on the code: \<open>DEFAULT_ENDPOINT\<close> is \<open>/\<close>. A transport built without
  \<open>httpServer.endpoint\<close> serves MCP traffic on \<open>/\<close> and answers a POST to \<open>/mcp\<close> with
  404.
\<close>

theorem default_endpoint_is_root:
  "Transport.endpoint default_transport = ''/''
   \<and> handleRequest default_transport ''u1'' []
        ((example_post (example_request (JNum 1) ''ping''))\<lparr>pathname := ''/mcp''\<rparr>) no_effects
     = (Returned, \<lparr>statusCode = 404, headers = [], body = Text ''Not Found'', writableEnded = True\<rparr>,
        no_effects)"
  by (simp add: handleRequest_def route_def runMiddlewares_def default_transport_eq default_options_def
      example_post_def new_response_def end_response_def setStatus_def)

lemma deliver_each_result:
  "deliver_each h ms fx = (r, fx') \<Longrightarrow> (r = None) = (\<forall>m \<in> set ms. h m = None)"
  by (induction ms arbitrary: fx) (auto split: option.splits)

lemma deliverToProtocol_result:
  "deliverToProtocol t ms fx = (r, fx') \<Longrightarrow>
     (r = None) = (\<forall>h. messageHandler t = Some h \<longrightarrow> (\<forall>m \<in> set ms. h m = None))"
  by (cases "messageHandler t") (auto simp: deliverToProtocol_def dest: deliver_each_result)

lemma publish_each_result:
  "publish_each b subject ms fx = (r, fx') \<Longrightarrow>
     (r = None) = (\<forall>m \<in> set ms. publishRejects b subject m = None)"
  by (induction ms arbitrary: fx) (auto simp: publish_def split: option.splits)

lemma handleError_open:
  "\<not> writableEnded res \<Longrightarrow>
     handleError e res =
       res\<lparr>statusCode := 500,
           headers := AList.update ''Content-Type'' ''application/json'' (headers res),
           body := Json (JObj [(''jsonrpc'', JStr ''2.0''), (''id'', JNull),
                               (''error'', JObj [(''code'', JNum (- 32603)),
                                                 (''message'', JStr ''Internal Server Error'')])]),
           writableEnded := True\<rparr>"
  by (simp add: handleError_def end_response_def setHeader_def setStatus_def error_envelope_def
      INTERNAL_ERROR_def)

lemma post_without_requests_rejected:
  assumes mw: "runMiddlewares t req new_response = (None, res1)" "\<not> writableEnded res1"
    and path: "pathname req = Transport.endpoint t" "pathname req \<noteq> ''/health''"
      "pathname req \<noteq> ''/readiness''"
    and post: "httpMethod req = ''POST''"
    and acc: "str_includes (nullish (accept req) []) ''application/json''
           \<or> str_includes (nullish (accept req) []) ''text/event-stream''
           \<or> str_includes (nullish (accept req) []) ''*/*''"
    and sess: "getOrCreateSession t uuid req res1 = (Success s session isNew, res2)"
    and body: "requestBody req = Parsed parsed"
    and ms: "ms = (case parsed of JArr xs \<Rightarrow> xs | _ \<Rightarrow> [parsed])"
    and noreq: "filter isJSONRPCRequest ms = []"
    and bad: "\<not> ((\<forall>h. messageHandler t = Some h \<longrightarrow> (\<forall>m \<in> set ms. h m = None))
                \<and> (\<forall>m \<in> set ms. publishRejects (broker t)
                       (BackgroundOutbound \<lparr>SessionScopeParams.sessionId = s\<rparr>) m = None))"
  shows "\<exists>e fx'. handleRequest t uuid events req fx = (Returned, handleError e res1, fx')"
proof -
  have res2: "res2 = res1" using sess by (rule getOrCreateSession_Success)
  have parse: "parseRequestBody req res1 = (Some (ms, isArray (Some parsed)), res1)"
    by (simp add: parseRequestBody_def body ms Let_def)
  have route: "route t uuid events req new_response fx = handlePost t uuid events req res1 fx"
    using mw path post by (simp add: route_def)
  obtain r1 fx1 where d: "deliverToProtocol t ms fx = (r1, fx1)"
    by (cases "deliverToProtocol t ms fx")
  have "\<exists>e fx'. handlePost t uuid events req res1 fx = (Rejected e, res1, fx')"
  proof (cases r1)
    case (Some e)
    with d acc show ?thesis
      by (auto simp add: handlePost_def Let_def sess res2 parse noreq)
  next
    case None
    with deliverToProtocol_result[OF d]
    have "\<forall>h. messageHandler t = Some h \<longrightarrow> (\<forall>m \<in> set ms. h m = None)" by simp
    with bad have nb: "\<not> (\<forall>m \<in> set ms. publishRejects (broker t)
                       (BackgroundOutbound \<lparr>SessionScopeParams.sessionId = s\<rparr>) m = None)" by blast
    obtain r2 fx2 where pb: "publish_each (broker t)
        (BackgroundOutbound \<lparr>SessionScopeParams.sessionId = s\<rparr>) ms fx1 = (r2, fx2)"
      by (cases "publish_each (broker t) (BackgroundOutbound \<lparr>SessionScopeParams.sessionId = s\<rparr>) ms fx1")
    with publish_each_result[OF pb] nb obtain e where "r2 = Some e" by auto
    with pb have "handleNotificationsOnly t s ms res1 fx1 = (Rejected e, res1, fx2)"
      by (simp add: handleNotificationsOnly_def)
    with d None acc show ?thesis
      by (auto simp add: handlePost_def Let_def sess res2 parse noreq)
  qed
  then show ?thesis by (auto simp: handleRequest_def route)
qed

text \<open>
  Claim C10, as amended. A POST whose body parses to a value that is not an object with a
  \<open>method\<close> member, or to an array of such values, holds no request, so it takes the
  notifications-only path once the middleware chain, the Accept header and the session
  let it through. When neither the message handler nor the broker throws on its messages,
  every message is delivered to the protocol and published on the background-outbound
  subject of the session, and the answer has status 202 and an empty body. When one of
  them throws, the answer has status 500 and the internal-error envelope (code
  \<open>-32603\<close>). In no case is the body an invalid-request envelope (code \<open>-32600\<close>).
\<close>

theorem post_without_method_answer:
  assumes "runMiddlewares t req new_response = (None, res1)" "\<not> writableEnded res1"
    and "pathname req = Transport.endpoint t" "pathname req \<noteq> ''/health''"
      "pathname req \<noteq> ''/readiness''"
    and "httpMethod req = ''POST''"
    and "str_includes (nullish (accept req) []) ''application/json''
           \<or> str_includes (nullish (accept req) []) ''text/event-stream''
           \<or> str_includes (nullish (accept req) []) ''*/*''"
    and "getOrCreateSession t uuid req res1 = (Success s session isNew, res2)"
    and "requestBody req = Parsed parsed"
    and "ms = (case parsed of JArr xs \<Rightarrow> xs | _ \<Rightarrow> [parsed])"
    and shape: "\<forall>m \<in> set ms. \<not> (isObject (Some m) \<and> has_key ''method'' m)"
  shows "filter isJSONRPCRequest ms = []
       \<and> ((\<forall>h. messageHandler t = Some h \<longrightarrow> (\<forall>m \<in> set ms. h m = None))
            \<and> (\<forall>m \<in> set ms. publishRejects (broker t)
                   (BackgroundOutbound \<lparr>SessionScopeParams.sessionId = s\<rparr>) m = None)
          \<longrightarrow> handleRequest t uuid events req fx =
                (Returned,
                 res1\<lparr>statusCode := 202, body := NoBody, writableEnded := True\<rparr>,
                 fx\<lparr>delivered := delivered fx @ delivered_to t ms,
                    published := published fx @
                      map (Pair (BackgroundOutbound \<lparr>SessionScopeParams.sessionId = s\<rparr>)) ms\<rparr>))
       \<and> (\<not> ((\<forall>h. messageHandler t = Some h \<longrightarrow> (\<forall>m \<in> set ms. h m = None))
               \<and> (\<forall>m \<in> set ms. publishRejects (broker t)
                      (BackgroundOutbound \<lparr>SessionScopeParams.sessionId = s\<rparr>) m = None))
          \<longrightarrow> (\<exists>fx'. handleRequest t uuid events req fx =
                (Returned,
                 res1\<lparr>statusCode := 500,
                      headers := AList.update ''Content-Type'' ''application/json'' (headers res1),
                      body := Json (JObj [(''jsonrpc'', JStr ''2.0''), (''id'', JNull),
                                          (''error'', JObj [(''code'', JNum (- 32603)),
                                             (''message'', JStr ''Internal Server Error'')])]),
                      writableEnded := True\<rparr>,
                 fx')))
       \<and> (\<forall>i msg. body (fst (snd (handleRequest t uuid events req fx)))
                    \<noteq> Json (JObj [(''jsonrpc'', JStr ''2.0''), (''id'', i),
                                   (''error'', JObj [(''code'', JNum (- 32600)),
                                                     (''message'', JStr msg)])]))"
proof -
  let ?ok = "(\<forall>h. messageHandler t = Some h \<longrightarrow> (\<forall>m \<in> set ms. h m = None))
            \<and> (\<forall>m \<in> set ms. publishRejects (broker t)
                   (BackgroundOutbound \<lparr>SessionScopeParams.sessionId = s\<rparr>) m = None)"
  have noreq: "filter isJSONRPCRequest ms = []"
    using shape isJSONRPCRequest_has_method by (auto simp: filter_empty_conv)
  have good: "handleRequest t uuid events req fx =
                (Returned,
                 res1\<lparr>statusCode := 202, body := NoBody, writableEnded := True\<rparr>,
                 fx\<lparr>delivered := delivered fx @ delivered_to t ms,
                    published := published fx @
                      map (Pair (BackgroundOutbound \<lparr>SessionScopeParams.sessionId = s\<rparr>)) ms\<rparr>)"
    if ok: ?ok
  proof -
    from ok have h: "\<forall>h. messageHandler t = Some h \<longrightarrow> (\<forall>m \<in> set ms. h m = None)"
      and b: "\<forall>m \<in> set ms. publishRejects (broker t)
                   (BackgroundOutbound \<lparr>SessionScopeParams.sessionId = s\<rparr>) m = None"
      by blast+
    from post_without_requests[OF assms(1-10) noreq h b, of events fx]
    show ?thesis by (simp add: end_response_def setStatus_def)
  qed
  have bad: "\<exists>fx'. handleRequest t uuid events req fx =
                (Returned,
                 res1\<lparr>statusCode := 500,
                      headers := AList.update ''Content-Type'' ''application/json'' (headers res1),
                      body := Json (JObj [(''jsonrpc'', JStr ''2.0''), (''id'', JNull),
                                          (''error'', JObj [(''code'', JNum (- 32603)),
                                             (''message'', JStr ''Internal Server Error'')])]),
                      writableEnded := True\<rparr>,
                 fx')"
    if nok: "\<not> ?ok"
    using post_without_requests_rejected[OF assms(1-10) noreq nok, of events fx]
      handleError_open[OF assms(2)] by auto
  have never: "body (fst (snd (handleRequest t uuid events req fx)))
                    \<noteq> Json (JObj [(''jsonrpc'', JStr ''2.0''), (''id'', i),
                                   (''error'', JObj [(''code'', JNum (- 32600)),
                                                     (''message'', JStr msg)])])" for i msg
  proof (cases ?ok)
    case True
    from good[OF True] show ?thesis by simp
  next
    case False
    from bad[OF False] show ?thesis by auto
  qed
  from noreq good bad never show ?thesis by blast
qed

text \<open>
  Claim C10 as stated fails when the broker rejects the publish: the body \<open>42\<close> takes the
  notifications-only path, the message is delivered, the publish throws, and the router
  answers 500 with the internal-error envelope instead of 202 with an empty body.
\<close>

theorem post_without_method_broker_rejects:
  "handleRequest failing_transport ''u1'' [] (example_post (JNum 42)) no_effects
     = (Returned,
        \<lparr>statusCode = 500, headers = [(''Content-Type'', ''application/json'')],
         body = Json (JObj [(''jsonrpc'', JStr ''2.0''), (''id'', JNull),
                            (''error'', JObj [(''code'', JNum (- 32603)),
                                              (''message'', JStr ''Internal Server Error'')])]),
         writableEnded = True\<rparr>,
        \<lparr>delivered = [JNum 42], published = [], subscribed = [], deletedSessions = []\<rparr>)"
  by code_simp

text \<open>
  The amended claim C10 on the default transport, for the body \<open>[42, "hello"]\<close>: status 202,
  no header, no body, both values delivered and published.
\<close>

theorem post_without_method_answer_witness:
  "handleRequest default_transport ''u1'' [] (example_post (JArr [JNum 42, JStr ''hello''])) no_effects
     = (Returned,
        \<lparr>statusCode = 202, headers = [], body = NoBody, writableEnded = True\<rparr>,
        \<lparr>delivered = [JNum 42, JStr ''hello''],
         published = [(''mcp.u1.bg.outbound'', JNum 42), (''mcp.u1.bg.outbound'', JStr ''hello'')],
         subscribed = [], deletedSessions = []\<rparr>)"
proof -
  let ?req = "example_post (JArr [JNum 42, JStr ''hello''])"
  have 1: "runMiddlewares default_transport ?req new_response = (None, new_response)"
    by (simp add: runMiddlewares_def default_transport_eq default_options_def)
  have 2: "\<not> writableEnded new_response" by (simp add: new_response_def)
  have 3: "pathname ?req = Transport.endpoint default_transport"
    by (simp add: example_post_def default_transport_eq)
  have 4: "pathname ?req \<noteq> ''/health''" by (simp add: example_post_def)
  have 5: "pathname ?req \<noteq> ''/readiness''" by (simp add: example_post_def)
  have 6: "httpMethod ?req = ''POST''" by (simp add: example_post_def)
  have 7: "str_includes (nullish (accept ?req) []) ''application/json''
           \<or> str_includes (nullish (accept ?req) []) ''text/event-stream''
           \<or> str_includes (nullish (accept ?req) []) ''*/*''"
    by (simp add: example_post_def nullish_def)
  have 8: "getOrCreateSession default_transport ''u1'' ?req new_response
          = (Success ''u1'' None True, new_response)"
    by (simp add: getOrCreateSession_def default_transport_eq default_options_def)
  have 9: "requestBody ?req = Parsed (JArr [JNum 42, JStr ''hello''])" by (simp add: example_post_def)
  have 10: "[JNum 42, JStr ''hello''] = (case JArr [JNum 42, JStr ''hello''] of JArr xs \<Rightarrow> xs | _ \<Rightarrow> [JArr [JNum 42, JStr ''hello'']])"
    by simp
  have 11: "\<forall>m \<in> set [JNum 42, JStr ''hello'']. \<not> (isObject (Some m) \<and> has_key ''method'' m)"
    by simp
  have 12: "\<forall>h. messageHandler default_transport = Some h \<longrightarrow> (\<forall>m \<in> set [JNum 42, JStr ''hello'']. h m = None)"
    by (simp add: default_transport_eq)
  have 13: "\<forall>m \<in> set [JNum 42, JStr ''hello''].
      publishRejects (broker default_transport) (BackgroundOutbound \<lparr>SessionScopeParams.sessionId = ''u1''\<rparr>) m = None"
    by (simp add: default_transport_eq quiet_broker_def)
  from post_without_method_answer[OF 1 2 3 4 5 6 7 8 9 10 11, of "[]" no_effects] 12 13
  have "handleRequest default_transport ''u1'' [] ?req no_effects =
          (Returned, new_response\<lparr>statusCode := 202, body := NoBody, writableEnded := True\<rparr>,
           no_effects\<lparr>delivered := delivered no_effects @ delivered_to default_transport [JNum 42, JStr ''hello''],
              published := published no_effects @
                map (Pair (BackgroundOutbound \<lparr>SessionScopeParams.sessionId = ''u1''\<rparr>)) [JNum 42, JStr ''hello'']\<rparr>)"
    by blast
  then show ?thesis
    by (simp add: delivered_to_def default_transport_eq no_effects_def new_response_def
        BackgroundOutbound_def createSessionScopedTopic_def)
qed

subsection \<open>Cancellation of an incoming request\<close>

lemma aborted_transport_send: "aborted (snd (transport_send c message opts p)) = aborted p"
  by (simp add: transport_send_def)

lemma aborted_processRequest_catch:
  "aborted (snd (processRequest_catch c message sessId controller err p)) = aborted p"
  by (simp add: processRequest_catch_def aborted_transport_send)

lemma aborted_processRequest_settle:
  "aborted (snd (processRequest_settle c message sessId controller result p)) = aborted p"
  by (cases result)
    (auto simp: processRequest_settle_def processRequest_catch_def transport_send_def Let_def
      split: option.splits prod.splits)

lemma aborted_clearRequest: "aborted (clearRequest key p) = aborted p"
  by (simp add: clearRequest_def split: option.splits)

lemma aborted_settle_promise: "aborted (settle_promise q v p) = aborted p"
  by (simp add: settle_promise_def split: option.splits)

lemma aborted_reject: "aborted (reject key err p) = aborted p"
  by (simp add: reject_def aborted_settle_promise aborted_clearRequest split: option.splits)

lemma aborted_send_request: "aborted (snd (send_request c request opts p)) = aborted p"
  by (simp add: send_request_def Let_def transport_send_def aborted_reject split: option.splits)

lemma aborted_abort_listener: "aborted p \<subseteq> aborted (abort_listener key controller p)"
  by (auto simp: abort_listener_def Let_def aborted_settle_promise aborted_clearRequest
      split: option.splits)

lemma aborted_fold_listeners:
  "aborted p \<subseteq> aborted (fold (\<lambda>(sg', key, controller) q.
       if sg' = sg then abort_listener key controller q else q) ls p)"
proof (induction ls arbitrary: p)
  case Nil
  show ?case by simp
next
  case (Cons l ls)
  obtain sg' key controller where l: "l = (sg', key, controller)" by (cases l)
  show ?case
    using Cons.IH[of "abort_listener key controller p"] Cons.IH[of p]
      aborted_abort_listener[of p key controller]
    by (auto simp: l)
qed

lemma aborted_signal_abort: "aborted p \<subseteq> aborted (signal_abort sg p)"
  unfolding signal_abort_def by (rule aborted_fold_listeners)

lemma aborted_handleCancellation: "aborted p \<subseteq> aborted (handleCancellation c message sessId p)"
  by (auto simp: handleCancellation_def Let_def split: option.splits)

lemma aborted_engine_step: "aborted p \<subseteq> aborted (engine_step e p)"
proof (cases e)
  case (Arrives c message sessId)
  then show ?thesis by (simp add: processRequest_begin_def Let_def)
next
  case (Settles c message sessId controller result)
  then show ?thesis by (simp add: aborted_processRequest_settle)
next
  case (Cancels c message sessId)
  then show ?thesis by (simp add: aborted_handleCancellation)
next
  case (Registers m handler)
  then show ?thesis by (simp add: registerHandler_def)
next
  case (Sends c request opts)
  then show ?thesis by (simp add: aborted_send_request)
next
  case (Aborts sg)
  then show ?thesis by (simp add: aborted_signal_abort)
qed

lemma aborted_engine_run: "aborted p \<subseteq> aborted (engine_run evs p)"
  unfolding engine_run_def
proof (induction evs arbitrary: p)
  case Nil
  show ?case by simp
next
  case (Cons e evs)
  show ?case using aborted_engine_step[of p e] Cons.IH[of "engine_step e p"] by auto
qed

lemma handleCancellation_trips:
  assumes "map_of (incomingRequests p) (mapRequestKey (conn_id c) sessId (cancelled_requestId notification))
             = Some controller"
  shows "controller \<in> aborted (handleCancellation c notification sessId p)"
  using assms by (simp add: handleCancellation_def Let_def)

lemma settle_when_aborted:
  assumes "controller \<in> aborted p"
  shows "processRequest_settle c message sessId controller result p =
           (None, p\<lparr>incomingRequests :=
              AList.delete (mapRequestKey (conn_id c) sessId (request_id message)) (incomingRequests p)\<rparr>)"
  using assms
  by (cases result) (simp_all add: processRequest_settle_def processRequest_catch_def Let_def)

text \<open>
  Claim C6. An incoming request is registered under its key with a new abort controller.
  While its handler is awaited, any engine steps may run. If a \<open>notifications/cancelled\<close>
  notification with the id of the request then arrives on the same connection and
  session while the request is still registered under its key, it trips the controller
  of the request. Whatever steps follow, when the handler resolves or rejects the engine
  sends nothing on the transport and raises nothing, and the table has no entry under
  the key of the request.
\<close>

theorem cancelled_request_sends_nothing:
  assumes "processRequest_begin c message sessId p0 = (controller, p1)"
    and "p2 = engine_run before p1"
    and "map_of (incomingRequests p2) (mapRequestKey (conn_id c) sessId (request_id message))
           = Some controller"
    and "cancelled_requestId notification = request_id message"
    and "p3 = engine_run after (handleCancellation c notification sessId p2)"
    and "processRequest_settle c message sessId controller result p3 = (raised, p4)"
  shows "controller \<in> aborted (handleCancellation c notification sessId p2)
       \<and> raised = None \<and> sent p4 = sent p3
       \<and> map_of (incomingRequests p4) (mapRequestKey (conn_id c) sessId (request_id message)) = None"
proof -
  have trip: "controller \<in> aborted (handleCancellation c notification sessId p2)"
    using assms(3,4) handleCancellation_trips[of p2 c sessId notification controller] by simp
  then have "controller \<in> aborted p3"
    using aborted_engine_run[of "handleCancellation c notification sessId p2" after] assms(5) by auto
  from settle_when_aborted[OF this, of c message sessId result] assms(6) trip
  show ?thesis by (auto simp: delete_conv')
qed

text \<open>
  Claim C6 for request \<open>r1\<close> of session \<open>s1\<close> on connection \<open>c1\<close>, cancelled before its
  handler returns a result.
\<close>

theorem cancelled_request_sends_nothing_witness:
  "processRequest_begin example_connection (example_request (JStr ''r1'') ''tools/call'') (Some ''s1'')
       (new_Protocol :: nat Protocol)
     = (0, new_Protocol\<lparr>incomingRequests := [(''c1:s1:r1'', 0)], controllers := Suc 0\<rparr>)
   \<and> handleCancellation example_connection (example_cancellation (JStr ''r1'')) (Some ''s1'')
          ((new_Protocol :: nat Protocol)\<lparr>incomingRequests := [(''c1:s1:r1'', 0)], controllers := Suc 0\<rparr>)
     = new_Protocol\<lparr>aborted := {0}, controllers := Suc 0\<rparr>
   \<and> processRequest_settle example_connection (example_request (JStr ''r1'') ''tools/call'') (Some ''s1'') 0
       (HandlerResult (JStr ''done''))
       ((new_Protocol :: nat Protocol)\<lparr>aborted := {0}, controllers := Suc 0\<rparr>)
     = (None, new_Protocol\<lparr>aborted := {0}, controllers := Suc 0\<rparr>)
   \<and> sent ((new_Protocol :: nat Protocol)\<lparr>aborted := {0}, controllers := Suc 0\<rparr>) = []"
proof -
  let ?c = example_connection and ?m = "example_request (JStr ''r1'') ''tools/call''"
  let ?p1 = "(new_Protocol :: nat Protocol)\<lparr>incomingRequests := [(''c1:s1:r1'', 0)], controllers := Suc 0\<rparr>"
  let ?n = "example_cancellation (JStr ''r1'')"
  let ?p3 = "(new_Protocol :: nat Protocol)\<lparr>aborted := {0}, controllers := Suc 0\<rparr>"
  have key: "mapRequestKey (conn_id ?c) (Some ''s1'') (request_id ?m) = ''c1:s1:r1''"
    by (simp add: mapRequestKey_def example_connection_def example_request_def request_id_def)
  have 4: "cancelled_requestId ?n = request_id ?m"
    by (simp add: cancelled_requestId_def example_cancellation_def example_request_def request_id_def)
  have 1: "processRequest_begin ?c ?m (Some ''s1'') (new_Protocol :: nat Protocol) = (0, ?p1)"
    by (simp add: processRequest_begin_def Let_def key new_Protocol_def)
  have 2: "?p1 = engine_run [] ?p1" by (simp add: engine_run_def)
  have 3: "map_of (incomingRequests ?p1) (mapRequestKey (conn_id ?c) (Some ''s1'') (request_id ?m)) = Some 0"
    by (simp add: key)
  have c: "handleCancellation ?c ?n (Some ''s1'') ?p1 = ?p3"
    by (simp add: handleCancellation_def Let_def 4 key new_Protocol_def)
  have 5: "?p3 = engine_run [] (handleCancellation ?c ?n (Some ''s1'') ?p1)"
    by (simp add: engine_run_def c)
  have 6: "processRequest_settle ?c ?m (Some ''s1'') 0 (HandlerResult (JStr ''done'')) ?p3 = (None, ?p3)"
    by (simp add: processRequest_settle_def Let_def key new_Protocol_def)
  from cancelled_request_sends_nothing[OF 1 2 3 4 5 6] 1 c 6
  show ?thesis by (simp add: new_Protocol_def)
qed

subsection \<open>Abort of an outgoing request by an external signal\<close>

text \<open>
  Claim C7 fails on the code. A request \<open>r1\<close> of session \<open>s1\<close> goes out on connection \<open>c1\<close>
  with the progress token \<open>tok\<close> and an external signal. When the signal aborts, the future
  is rejected with the internal error and the pending entry is removed, but the progress
  index still maps \<open>c1:s1:tok\<close> to the request: \<open>clearRequest\<close> deletes the request key from
  the progress index, which is keyed by progress keys.
\<close>

theorem external_abort_keeps_progress_entry:
  "map_of (pendingRequests (snd (send_request example_connection
       (example_progress_request (JStr ''r1'') (JStr ''tok'')) example_request_options
       (new_Protocol :: nat Protocol)))) ''c1:s1:r1'' \<noteq> None
   \<and> map_of (progressTokenIndex (snd (send_request example_connection
       (example_progress_request (JStr ''r1'') (JStr ''tok'')) example_request_options
       (new_Protocol :: nat Protocol)))) ''c1:s1:tok'' = Some ''c1:s1:r1''
   \<and> settled (signal_abort 0 (snd (send_request example_connection
       (example_progress_request (JStr ''r1'') (JStr ''tok'')) example_request_options
       (new_Protocol :: nat Protocol)))) 0
       = Some (RejectedWith (ProtocolError (- 32603) ''Request aborted by external signal''))
   \<and> map_of (pendingRequests (signal_abort 0 (snd (send_request example_connection
       (example_progress_request (JStr ''r1'') (JStr ''tok'')) example_request_options
       (new_Protocol :: nat Protocol))))) ''c1:s1:r1'' = None
   \<and> map_of (progressTokenIndex (signal_abort 0 (snd (send_request example_connection
       (example_progress_request (JStr ''r1'') (JStr ''tok'')) example_request_options
       (new_Protocol :: nat Protocol))))) ''c1:s1:tok'' = Some ''c1:s1:r1''"
  by (simp add: send_request_def Let_def example_connection_def example_progress_request_def
      example_request_options_def new_Protocol_def mapRequestKey_def mapProgressKey_def
      request_id_def nullish_def transport_send_def signal_abort_def abort_listener_def
      clearRequest_def settle_promise_def InternalError_def INTERNAL_ERROR_def)

subsection \<open>The deadline of a JSON answer\<close>
















end
